theory Spec2Isabelle
  imports Complex_Main "HOL-Library.Multiset" "HOL-Library.List_Lexorder" "HOL-Library.Char_ord"
begin

section \<open>Common ground: Python errors and strings\<close>

text \<open>
  Exceptions of the Python source are values of the type \<open>error\<close>; a function that may
  raise returns \<open>error + 'a\<close>, with \<open>Inl\<close> for the raised exception.
\<close>

datatype error =
    ValueError string
  | NotImplementedError string
  | KeyError string
  | IndexError
  | TypeError
  | UnboundLocalError string
  | AttributeError string
  | LinAlgError
  | ExternalError string

text \<open>
  \<open>str.casefold()\<close> on the ASCII method and option names of the source: upper-case
  letters are mapped to lower case, every other character is kept.
\<close>

definition lower_char :: "char \<Rightarrow> char" where
  "lower_char c =
     (case map_of (zip ''ABCDEFGHIJKLMNOPQRSTUVWXYZ'' ''abcdefghijklmnopqrstuvwxyz'') c of
        Some l \<Rightarrow> l
      | None \<Rightarrow> c)"

definition casefold :: "string \<Rightarrow> string" where
  "casefold s = map lower_char s"

section \<open>The capability contract: \<open>model.predict\<close>\<close>

text \<open>
  \<open>data.molecular_database\<close> is an ordered collection of molecules; only its list of
  molecules matters here.
\<close>

record 'mol molecular_database =
  molecules :: "'mol list"

text \<open>
  \<open>model.predict\<close> (models.py, lines 44-70). An argument left at its default
  \<open>None\<close> is \<open>None\<close> here. The source tests \<open>molecular_database != None\<close> first
  and \<open>molecule != None\<close> only in the \<open>elif\<close>.
\<close>

definition model_predict ::
  "'mol molecular_database option \<Rightarrow> 'mol option \<Rightarrow> error + 'mol molecular_database" where
  "model_predict molecular_database molecule =
     (case molecular_database of
        Some db \<Rightarrow> Inr db
      | None \<Rightarrow>
          (case molecule of
             Some m \<Rightarrow> Inr \<lparr>molecules = [m]\<rparr>
           | None \<Rightarrow>
               Inl (ValueError ''Either molecule or molecular_database should be provided in input'')))"

text \<open>
  \<open>ml_model.predict\<close> (models.py, lines 219-242): the universal argument check of
  \<open>model.predict\<close>, then the names of the properties to write.
\<close>

definition ml_model_predict ::
  "'mol molecular_database option \<Rightarrow> 'mol option \<Rightarrow> bool \<Rightarrow> string option \<Rightarrow> bool \<Rightarrow>
   string option \<Rightarrow> bool \<Rightarrow> string option \<Rightarrow>
   error + ('mol molecular_database \<times> string option \<times> string option \<times> string option)" where
  "ml_model_predict molecular_database molecule calculate_energy property_to_predict
     calculate_energy_gradients xyz_derivative_property_to_predict
     calculate_hessian hessian_to_predict =
     (case model_predict molecular_database molecule of
        Inl e \<Rightarrow> Inl e
      | Inr db \<Rightarrow>
          Inr (db,
               (if calculate_energy then Some ''energy'' else property_to_predict),
               (if calculate_energy_gradients then Some ''energy_gradients''
                else xyz_derivative_property_to_predict),
               (if calculate_hessian then Some ''hessian'' else hessian_to_predict)))"

section \<open>The kernel model: solving for the weights in \<open>krr.train\<close>\<close>






section \<open>The validation engine of \<open>ml_model\<close>\<close>

text \<open>Raising propagates: the rest of a sequence runs only on a normal return.\<close>

definition ebind :: "error + 'a \<Rightarrow> ('a \<Rightarrow> error + 'b) \<Rightarrow> error + 'b" where
  "ebind r f = (case r of Inl e \<Rightarrow> Inl e | Inr x \<Rightarrow> f x)"

fun efold :: "('a \<Rightarrow> 's \<Rightarrow> error + 's) \<Rightarrow> 'a list \<Rightarrow> 's \<Rightarrow> error + 's" where
  "efold f [] s = Inr s"
| "efold f (x # xs) s = ebind (f x s) (efold f xs)"

lemma efold_cong [fundef_cong]:
  "xs = ys \<Longrightarrow> s = t \<Longrightarrow> (\<And>x s. x \<in> set ys \<Longrightarrow> f x s = g x s) \<Longrightarrow> efold f xs s = efold g ys t"
  by (induction ys arbitrary: xs s t) (auto simp: ebind_def split: sum.splits)

fun emap :: "('a \<Rightarrow> error + 'b) \<Rightarrow> 'a list \<Rightarrow> error + 'b list" where
  "emap f [] = Inr []"
| "emap f (x # xs) = ebind (f x) (\<lambda>y. ebind (emap f xs) (\<lambda>ys. Inr (y # ys)))"

text \<open>
  Keyword dictionaries (\<open>training_kwargs\<close>, \<open>prediction_kwargs\<close>) map a key to a
  Python value; the values that occur are \<open>None\<close>, strings and booleans.
\<close>

datatype kwval = KNone | KStr string | KBool bool

type_synonym kwargs = "string \<rightharpoonup> kwval"

text \<open>
  A trainable model, as the validation engine sees it. Training, prediction and reset
  are the methods of the concrete model, and the two accessors are methods of
  \<open>data.molecular_database\<close>; none of them is defined in models.py, so they are
  parameters. Molecules are objects that \<open>predict\<close> annotates in place: a database is a
  list of references \<open>'m\<close>, and the state \<open>'s\<close> holds the model and every molecule.
\<close>

record ('m, 's) ml_model =
  train :: "'m list \<Rightarrow> kwargs \<Rightarrow> 's \<Rightarrow> error + 's"
  predict :: "'m list \<Rightarrow> kwargs \<Rightarrow> 's \<Rightarrow> error + 's"
  reset :: "'s \<Rightarrow> error + 's"
  get_properties :: "'s \<Rightarrow> 'm list \<Rightarrow> kwval \<Rightarrow> error + real list"
  get_xyz_vectorial_properties :: "'s \<Rightarrow> 'm list \<Rightarrow> kwval \<Rightarrow> error + real list list list"

definition kwargs_or_empty :: "kwargs option \<Rightarrow> kwargs" where
  "kwargs_or_empty kw = (case kw of None \<Rightarrow> Map.empty | Some k \<Rightarrow> k)"


text \<open>
  \<open>ml_model.cross_validation\<close> (models.py, lines 456-470): the outer loop over
  \<open>range(nsplits)\<close>, the inner loop that extends the subtraining list by every split
  but the \<open>ii\<close>-th, then train, predict, reset.
\<close>

definition cv_subtraining :: "'m molecular_database list \<Rightarrow> nat \<Rightarrow> 'm list" where
  "cv_subtraining cv_splits_molecular_databases ii =
     foldl (\<lambda>subtraining jj.
              if ii \<noteq> jj then subtraining @ molecules (cv_splits_molecular_databases ! jj)
              else subtraining)
       [] [0..<length cv_splits_molecular_databases]"

definition cross_validation ::
  "('m, 's) ml_model \<Rightarrow> 'm molecular_database list \<Rightarrow> kwargs option \<Rightarrow> kwargs option \<Rightarrow> 's \<Rightarrow> error + 's" where
  "cross_validation self cv_splits_molecular_databases training_kwargs prediction_kwargs s =
     efold (\<lambda>ii s.
        ebind (train self (cv_subtraining cv_splits_molecular_databases ii)
                 (kwargs_or_empty training_kwargs) s) (\<lambda>s.
        ebind (predict self (molecules (cv_splits_molecular_databases ! ii))
                 (kwargs_or_empty prediction_kwargs) s) (\<lambda>s.
        reset self s)))
       [0..<length cv_splits_molecular_databases] s"

text \<open>
  A model that only records the calls it receives: the state is the list of calls so
  far. It shows which calls \<open>cross_validation\<close> makes, in which order and on which
  molecules.
\<close>

datatype 'm call = Train "'m list" | Predict "'m list" | Reset

definition recording_model :: "('m, 'm call list) ml_model" where
  "recording_model =
     \<lparr>train = (\<lambda>db kw calls. Inr (calls @ [Train db])),
      predict = (\<lambda>db kw calls. Inr (calls @ [Predict db])),
      reset = (\<lambda>calls. Inr (calls @ [Reset])),
      get_properties = (\<lambda>calls db p. Inr []),
      get_xyz_vectorial_properties = (\<lambda>calls db p. Inr [])\<rparr>"

fun predicted :: "'m call list \<Rightarrow> 'm list" where
  "predicted [] = []"
| "predicted (Predict db # cs) = db @ predicted cs"
| "predicted (c # cs) = predicted cs"

text \<open>The \<open>i\<close>-th train-predict-reset cycle of a k-fold cross-validation, as the specification words it.\<close>

definition cv_cycle :: "'m molecular_database list \<Rightarrow> nat \<Rightarrow> 'm call list" where
  "cv_cycle splits i =
     [Train (concat (map molecules (take i splits @ drop (Suc i) splits))),
      Predict (molecules (splits ! i)),
      Reset]"

















section \<open>Grid search: \<open>optimize_grid\<close>\<close>

text \<open>
  The losses are whatever \<open>func\<close> returns, and \<open>less\<close> is the comparison
  \<open>val < min_val\<close> of Python on them. On floating-point numbers it is not a linear
  order: a comparison with NaN is false both ways.

  The scan of the last axis: the first value is the initial optimum, a later value
  replaces it only when its loss is strictly smaller. The second component lists the
  points at which \<open>func\<close> was called, in order.
\<close>

definition scan_step ::
  "('v \<Rightarrow> 'v \<Rightarrow> bool) \<Rightarrow> ('p list \<Rightarrow> 'v) \<Rightarrow> 'p list \<Rightarrow> ('p \<times> 'v) \<times> 'p list list \<Rightarrow> 'p \<Rightarrow>
   ('p \<times> 'v) \<times> 'p list list" where
  "scan_step lt func other_params st param =
     (case st of ((opt_param, min_val), evals) \<Rightarrow>
        let val = func (other_params @ [param]) in
        ((if lt val min_val then (param, val) else (opt_param, min_val)),
         evals @ [other_params @ [param]]))"

text \<open>
  One pass of the loop over the values of the first multi-valued axis: \<open>min_val\<close>
  starts as \<open>None\<close>, the first result sets the optimum, a later one replaces it only
  when its loss is strictly smaller; a recursive call that raises ends the loop.
\<close>

definition keep_best_step ::
  "('v \<Rightarrow> 'v \<Rightarrow> bool) \<Rightarrow>
   error + (('p list \<times> 'v) option \<times> 'p list list) \<Rightarrow>
   error + (('p list \<times> 'v) \<times> 'p list list) \<Rightarrow>
   error + (('p list \<times> 'v) option \<times> 'p list list)" where
  "keep_best_step lt st r =
     (case st of
        Inl e \<Rightarrow> Inl e
      | Inr (best, evals) \<Rightarrow>
          (case r of
             Inl e \<Rightarrow> Inl e
           | Inr ((params, val), evals') \<Rightarrow>
               (case best of
                  None \<Rightarrow> Inr (Some (params, val), evals @ evals')
                | Some (opt_params, min_val) \<Rightarrow>
                    if lt val min_val then Inr (Some (params, val), evals @ evals')
                    else Inr (Some (opt_params, min_val), evals @ evals'))))"

text \<open>
  The index \<open>kk\<close> that the loop \<open>for kk in range(len(grid))[:-1]\<close> stops at: the
  first axis, the last one excluded, whose length is not 1.
\<close>

definition first_multivalued :: "'p list list \<Rightarrow> nat" where
  "first_multivalued grid = length (takeWhile (\<lambda>ii. length ii = 1) (butlast grid))"

text \<open>The recursion ends: each call fixes one more multi-valued axis to a single value.\<close>

definition multivalued_axes :: "'p list list \<Rightarrow> nat" where
  "multivalued_axes grid = length (filter (\<lambda>ii. length ii \<noteq> 1) (butlast grid))"

lemma takeWhile_first_failure:
  "\<not> list_all P xs \<Longrightarrow>
   length (takeWhile P xs) < length xs \<and> \<not> P (xs ! length (takeWhile P xs))"
  by (induction xs) auto

lemma filter_after_first_failure:
  "\<not> list_all P xs \<Longrightarrow>
   length (filter (\<lambda>x. \<not> P x) (drop (Suc (length (takeWhile P xs))) xs))
   < length (filter (\<lambda>x. \<not> P x) xs)"
  by (induction xs) (auto simp: less_Suc_eq_le)

lemma first_multivalued_props:
  assumes "\<not> list_all (\<lambda>ii. length ii = 1) (butlast grid)"
  shows "first_multivalued grid < length grid - 1"
    and "length (grid ! first_multivalued grid) \<noteq> 1"
proof -
  from takeWhile_first_failure [OF assms]
  have lt: "first_multivalued grid < length (butlast grid)"
    and np: "length (butlast grid ! first_multivalued grid) \<noteq> 1"
    by (simp_all add: first_multivalued_def)
  from lt show "first_multivalued grid < length grid - 1" by simp
  from lt np show "length (grid ! first_multivalued grid) \<noteq> 1"
    by (simp add: nth_butlast)
qed

lemma multivalued_axes_decreases:
  assumes "\<not> list_all (\<lambda>ii. length ii = 1) (butlast grid)"
  shows "multivalued_axes (map (\<lambda>ii. [hd (grid ! ii)]) [0..<first_multivalued grid] @ [[param]]
            @ drop (first_multivalued grid + 1) grid)
         < multivalued_axes grid"
proof -
  let ?k = "first_multivalued grid"
  let ?Q = "\<lambda>ii::'a list. \<not> length ii = 1"
  from first_multivalued_props(1) [OF assms] have ne: "drop (Suc ?k) grid \<noteq> []" by simp
  have "multivalued_axes (map (\<lambda>ii. [hd (grid ! ii)]) [0..<?k] @ [[param]] @ drop (?k + 1) grid)
        = length (filter ?Q (butlast (drop (Suc ?k) grid)))"
    unfolding multivalued_axes_def using ne by (simp add: butlast_append filter_empty_conv)
  also have "\<dots> = length (filter ?Q (drop (Suc ?k) (butlast grid)))"
    by (simp add: drop_butlast)
  also have "\<dots> < length (filter ?Q (butlast grid))"
    using filter_after_first_failure [OF assms] by (simp add: first_multivalued_def)
  finally show ?thesis by (simp add: multivalued_axes_def)
qed

lemma multivalued_axes_decreases_normal:
  assumes "\<not> list_all (\<lambda>ii. length ii = Suc 0) (butlast grid)"
  shows "multivalued_axes (map (\<lambda>ii. [hd (grid ! ii)]) [0..<first_multivalued grid] @
            [param] # drop (Suc (first_multivalued grid)) grid)
         < multivalued_axes grid"
  using multivalued_axes_decreases [of grid param] assms by simp

text \<open>
  \<open>optimize_grid\<close> (models.py, lines 519-551). The loss \<open>func\<close> is a function of the
  list of parameters, and \<open>less\<close> the comparison of its values. The result
  is the pair \<open>(params, min_val)\<close> of the source together with the list of the points
  at which \<open>func\<close> was called, in order. \<open>grid[-1][0]\<close> on an empty grid or an
  empty last axis raises \<open>IndexError\<close>; an empty axis elsewhere leaves
  \<open>opt_params\<close> unassigned.
\<close>

function optimize_grid ::
  "('v \<Rightarrow> 'v \<Rightarrow> bool) \<Rightarrow> ('p list \<Rightarrow> 'v) \<Rightarrow> 'p list list \<Rightarrow>
   error + (('p list \<times> 'v) \<times> 'p list list)" where
  "optimize_grid lt func grid =
     (if list_all (\<lambda>ii. length ii = 1) (butlast grid)
      then
        (if grid = [] then Inl IndexError
         else
           (case last grid of
              [] \<Rightarrow> Inl IndexError
            | opt_param # params \<Rightarrow>
                let other_params = map hd (butlast grid);
                    start = ((opt_param, func (other_params @ [opt_param])),
                             [other_params @ [opt_param]])
                in (case foldl (scan_step lt func other_params) start params of
                      ((opt_param, min_val), evals) \<Rightarrow>
                        Inr ((other_params @ [opt_param], min_val), evals))))
      else
        (let kk = first_multivalued grid;
             other_params_left = map (\<lambda>ii. [hd (grid ! ii)]) [0..<kk];
             other_params_right = drop (kk + 1) grid
         in (case foldl (keep_best_step lt) (Inr (None, []))
                   (map (\<lambda>param. optimize_grid lt func
                                    (other_params_left @ [[param]] @ other_params_right))
                      (grid ! kk)) of
               Inl e \<Rightarrow> Inl e
             | Inr (None, evals) \<Rightarrow> Inl (UnboundLocalError ''opt_params'')
             | Inr (Some (opt_params, min_val), evals) \<Rightarrow> Inr ((opt_params, min_val), evals))))"
  by pat_completeness auto
termination
  by (relation "measure (\<lambda>(lt, func, grid). multivalued_axes grid)")
     (simp_all add: multivalued_axes_decreases_normal)

declare optimize_grid.simps [simp del]

text \<open>
  Floating-point losses: a number or NaN, with the comparison of Python. (The two
  infinities are ordered like numbers and are left out.)
\<close>

datatype pyfloat = Num real | NaN

fun float_less :: "pyfloat \<Rightarrow> pyfloat \<Rightarrow> bool" where
  "float_less (Num x) (Num y) = (x < y)"
| "float_less a b = False"

fun number_of :: "pyfloat \<Rightarrow> real" where
  "number_of (Num x) = x"
| "number_of NaN = 0"

text \<open>
  Losses for evaluation: a convex quadratic one, one that is small on the diagonal only,
  and the quadratic one with NaN at the first point of the grid.
\<close>

fun quadratic_loss :: "int list \<Rightarrow> int" where
  "quadratic_loss [x, y] = (x - 1)\<^sup>2 + (y - 2)\<^sup>2"
| "quadratic_loss p = 0"

fun diagonal_loss :: "nat list \<Rightarrow> nat" where
  "diagonal_loss [x, y] = (if x = y then (if x = 2 then 0 else 1) else 2)"
| "diagonal_loss p = 3"

definition float_quadratic_loss :: "int list \<Rightarrow> pyfloat" where
  "float_quadratic_loss p = Num (real_of_int (quadratic_loss p))"

definition nan_at_origin :: "int list \<Rightarrow> pyfloat" where
  "nan_at_origin p = (if p = [0, 0] then NaN else float_quadratic_loss p)"


text \<open>
  Exhaustive search, as the specification words it: the loss is evaluated at every point
  of the Cartesian product of the axes, and the first point with the smallest loss is
  the optimum. The losses are compared by their \<open>key\<close> in a linear order.
\<close>

definition exhaustive_search ::
  "('v \<Rightarrow> 'k::linorder) \<Rightarrow> ('p list \<Rightarrow> 'v) \<Rightarrow> 'p list list \<Rightarrow> ('p list \<times> 'v) \<times> 'p list list" where
  "exhaustive_search key func grid =
     (let points = product_lists grid; best = arg_min_list (\<lambda>p. key (func p)) points
      in ((best, func best), points))"

text \<open>
  The comparison \<open>less\<close> is the linear order of the keys on the losses at the points
  \<open>ps\<close>: for floating-point losses, none of them is NaN.
\<close>

definition ordered_by ::
  "('v \<Rightarrow> 'v \<Rightarrow> bool) \<Rightarrow> ('v \<Rightarrow> 'k::linorder) \<Rightarrow> ('p list \<Rightarrow> 'v) \<Rightarrow> 'p list list \<Rightarrow> bool" where
  "ordered_by lt key func ps =
     list_all (\<lambda>p. list_all (\<lambda>q. lt (func p) (func q) = (key (func p) < key (func q))) ps) ps"

section \<open>Hyperparameters\<close>
















section \<open>Deterministic methods: \<open>methods.__init__\<close>\<close>
















section \<open>Molecules and the model tree\<close>

text \<open>
  A molecule is its atoms and its bag of named properties \<open>mol.__dict__\<close>. A property
  is a number or an array (rows of numbers), or a reference to a per-node property
  container; the containers are objects that several references share and that are
  changed in place, so they live in a store of the molecule, and a reference is an
  index into it. An atom carries its own bag of vector properties.
\<close>

datatype pval = Scalar real | Matrix "real list list"

datatype entry = Val pval | Obj nat

record atom =
  atomic_number :: nat
  xyz_coordinates :: "real list"
  atom_dict :: "string \<rightharpoonup> real list"

record properties_tree_node =
  pt_name :: string
  pt_parent :: "entry option"
  pt_children :: "entry list option"
  pt_values :: "string \<rightharpoonup> entry"

record molecule =
  atoms :: "atom list"
  mol_dict :: "string \<rightharpoonup> entry"
  store :: "properties_tree_node list"

text \<open>
  Modelled from the spec: the class \<open>data.properties_tree_node\<close>, which is not part
  of the sources at hand. Its constructor links the new container with its parent and
  its children the way \<open>model_tree_node.__init__\<close> (models.py, lines 983-995) links the
  nodes of the model tree: the parent gets the new container appended to its children,
  and the children given get the new container as their parent. \<open>sum\<close> adds every
  requested property across the children of the container elementwise, \<open>average\<close>
  takes the mean of the same values, the sum divided by the number of children.
\<close>

definition deref :: "molecule \<Rightarrow> entry \<Rightarrow> error + (nat \<times> properties_tree_node)" where
  "deref mol e =
     (case e of
        Val v \<Rightarrow> Inl (AttributeError ''not a properties_tree_node'')
      | Obj a \<Rightarrow> if a < length (store mol) then Inr (a, store mol ! a)
                 else Inl (AttributeError ''dangling reference''))"

definition set_obj :: "nat \<Rightarrow> properties_tree_node \<Rightarrow> molecule \<Rightarrow> molecule" where
  "set_obj a c mol = mol\<lparr>store := (store mol)[a := c]\<rparr>"

definition new_properties_tree_node ::
  "string \<Rightarrow> entry option \<Rightarrow> entry list option \<Rightarrow> molecule \<Rightarrow> error + (entry \<times> molecule)" where
  "new_properties_tree_node name_arg parent children mol =
     (let self = length (store mol);
          mol = mol\<lparr>store := store mol @
                   [\<lparr>pt_name = name_arg, pt_parent = parent, pt_children = children,
                     pt_values = Map.empty\<rparr>]\<rparr>
      in
      ebind (case parent of
               None \<Rightarrow> Inr mol
             | Some p \<Rightarrow>
                 ebind (deref mol p) (\<lambda>(a, pc).
                 let siblings = (case pt_children pc of None \<Rightarrow> [] | Some cs \<Rightarrow> cs)
                 in Inr (set_obj a
                           (pc\<lparr>pt_children :=
                                 Some (if Obj self \<in> set siblings then siblings
                                       else siblings @ [Obj self])\<rparr>) mol))) (\<lambda>mol.
      ebind (case children of
               None \<Rightarrow> Inr mol
             | Some cs \<Rightarrow>
                 efold (\<lambda>child mol.
                          ebind (deref mol child) (\<lambda>(a, cc).
                          Inr (set_obj a (cc\<lparr>pt_parent := Some (Obj self)\<rparr>) mol)))
                   cs mol) (\<lambda>mol.
      Inr (Obj self, mol))))"

text \<open>\<open>np.sum(values, axis=0)\<close> and \<open>np.mean(values, axis=0)\<close> on numbers or on arrays of one shape.\<close>

fun pval_add :: "pval \<Rightarrow> pval \<Rightarrow> error + pval" where
  "pval_add (Scalar x) (Scalar y) = Inr (Scalar (x + y))"
| "pval_add (Matrix a) (Matrix b) =
     (if map length a = map length b
      then Inr (Matrix (map2 (\<lambda>r s. map2 (+) r s) a b))
      else Inl (ValueError ''operands could not be broadcast together''))"
| "pval_add v w = Inl (ValueError ''operands could not be broadcast together'')"

definition np_sum :: "pval list \<Rightarrow> error + pval" where
  "np_sum vs =
     (case vs of
        [] \<Rightarrow> Inr (Scalar 0)
      | v # ws \<Rightarrow> efold (\<lambda>w acc. pval_add acc w) ws v)"

fun pval_div :: "pval \<Rightarrow> real \<Rightarrow> pval" where
  "pval_div (Scalar x) n = Scalar (x / n)"
| "pval_div (Matrix a) n = Matrix (map (map (\<lambda>x. x / n)) a)"

definition np_mean :: "pval list \<Rightarrow> error + pval" where
  "np_mean vs =
     (if vs = [] then Inl (ValueError ''mean of empty slice'')
      else ebind (np_sum vs) (\<lambda>s. Inr (pval_div s (real (length vs)))))"

definition child_value :: "molecule \<Rightarrow> string \<Rightarrow> entry \<Rightarrow> error + pval" where
  "child_value mol property_name child =
     ebind (deref mol child) (\<lambda>(a, cc).
       case pt_values cc property_name of
         None \<Rightarrow> Inl (KeyError property_name)
       | Some (Val v) \<Rightarrow> Inr v
       | Some (Obj b) \<Rightarrow> Inl TypeError)"

definition combine ::
  "(pval list \<Rightarrow> error + pval) \<Rightarrow> string list \<Rightarrow> entry \<Rightarrow> molecule \<Rightarrow> error + molecule" where
  "combine reduce properties self mol =
     efold (\<lambda>property_name mol.
              ebind (deref mol self) (\<lambda>(a, c).
              case pt_children c of
                None \<Rightarrow> Inl TypeError
              | Some cs \<Rightarrow>
                  ebind (emap (child_value mol property_name) cs) (\<lambda>property_values.
                  ebind (reduce property_values) (\<lambda>v.
                  Inr (set_obj a (c\<lparr>pt_values := (pt_values c)(property_name \<mapsto> Val v)\<rparr>) mol)))))
       properties mol"

definition properties_tree_node_sum :: "string list \<Rightarrow> entry \<Rightarrow> molecule \<Rightarrow> error + molecule" where
  "properties_tree_node_sum = combine np_sum"

definition properties_tree_node_average :: "string list \<Rightarrow> entry \<Rightarrow> molecule \<Rightarrow> error + molecule" where
  "properties_tree_node_average = combine np_mean"

text \<open>
  The model at a leaf of the tree: an external model, which by the contract of
  \<open>predict\<close> (and as \<open>ani_child.predict\<close>, torchani_interface.py, lines 576-593,
  does) writes the energy to \<open>mol.energy\<close>, the gradient of atom \<open>i\<close> to
  \<open>mol.atoms[i].energy_gradients\<close> and the Hessian to \<open>mol.hessian\<close>, each when its
  flag asks for it. What it computes from the atoms is a parameter.
\<close>

record leaf_model =
  energy_of :: "atom list \<Rightarrow> real"
  gradients_of :: "atom list \<Rightarrow> real list list"
  hessian_of :: "atom list \<Rightarrow> real list list"

record predict_flags =
  calculate_energy :: bool
  calculate_energy_gradients :: bool
  calculate_hessian :: bool

definition set_atom_property :: "string \<Rightarrow> real list \<Rightarrow> atom \<Rightarrow> atom" where
  "set_atom_property property_name v a = a\<lparr>atom_dict := (atom_dict a)(property_name \<mapsto> v)\<rparr>"

definition leaf_model_predict :: "leaf_model \<Rightarrow> predict_flags \<Rightarrow> molecule \<Rightarrow> error + molecule" where
  "leaf_model_predict m flags mol =
     (let mol = (if calculate_energy flags
                 then mol\<lparr>mol_dict := (mol_dict mol)(''energy'' \<mapsto> Val (Scalar (energy_of m (atoms mol))))\<rparr>
                 else mol)
      in
      ebind (if calculate_energy_gradients flags
             then (let grads = gradients_of m (atoms mol) in
                   if length grads < length (atoms mol) then Inl IndexError
                   else Inr (mol\<lparr>atoms := map2 (set_atom_property ''energy_gradients'')
                                              grads (atoms mol)\<rparr>))
             else Inr mol) (\<lambda>mol.
      Inr (if calculate_hessian flags
           then mol\<lparr>mol_dict := (mol_dict mol)(''hessian'' \<mapsto> Val (Matrix (hessian_of m (atoms mol))))\<rparr>
           else mol)))"

text \<open>
  The class \<open>model_tree_node\<close> (models.py, lines 982-1075). The back-reference
  \<open>parent\<close> of a node is the node it is a child of; \<open>predict\<close> reads only the
  parent's name, which is passed along (\<open>None\<close> at the root).
\<close>

datatype model_tree_node =
  Model_tree_node (node_name: string) (node_children: "model_tree_node list option")
    (node_operator: "string option") (node_model: "leaf_model option")

definition requested_properties :: "predict_flags \<Rightarrow> string list" where
  "requested_properties flags =
     (if calculate_energy flags then [''energy''] else [])
     @ (if calculate_hessian flags then [''hessian''] else [])"

definition requested_atomic_properties :: "predict_flags \<Rightarrow> string list" where
  "requested_atomic_properties flags =
     (if calculate_energy_gradients flags then [''energy_gradients''] else [])"

text \<open>
  The first loop of \<open>predict\<close> (lines 1022-1034): a molecule that has no entry under the
  name of the node gets a new container, linked to the container of the parent when the
  molecule has one and to the containers of the children it already has.
\<close>

definition ensure_container ::
  "string option \<Rightarrow> string \<Rightarrow> string list option \<Rightarrow> molecule \<Rightarrow> error + molecule" where
  "ensure_container parent_name name_arg child_names mol =
     (if name_arg \<in> dom (mol_dict mol) then Inr mol
      else
        (let parent = (case parent_name of
                         None \<Rightarrow> None
                       | Some p \<Rightarrow> mol_dict mol p);
             children = (case child_names of
                           None \<Rightarrow> None
                         | Some cs \<Rightarrow>
                             (case List.map_filter (mol_dict mol) cs of
                                [] \<Rightarrow> None
                              | es \<Rightarrow> Some es))
         in ebind (new_properties_tree_node name_arg parent children mol) (\<lambda>(self, mol).
            Inr (mol\<lparr>mol_dict := (mol_dict mol)(name_arg \<mapsto> self)\<rparr>))))"

text \<open>\<open>get_properties_from_molecule\<close> (lines 1054-1062).\<close>

definition atom_property :: "string \<Rightarrow> atom \<Rightarrow> error + real list" where
  "atom_property property_name a =
     (case atom_dict a property_name of None \<Rightarrow> Inl (KeyError property_name) | Some v \<Rightarrow> Inr v)"

definition node_container :: "string \<Rightarrow> molecule \<Rightarrow> error + (nat \<times> properties_tree_node)" where
  "node_container name_arg mol =
     (case mol_dict mol name_arg of
        None \<Rightarrow> Inl (KeyError name_arg)
      | Some e \<Rightarrow> deref mol e)"

definition set_container_value :: "string \<Rightarrow> string \<Rightarrow> entry \<Rightarrow> molecule \<Rightarrow> error + molecule" where
  "set_container_value name_arg property_name v mol =
     ebind (node_container name_arg mol) (\<lambda>(a, c).
       Inr (set_obj a (c\<lparr>pt_values := (pt_values c)(property_name \<mapsto> v)\<rparr>) mol))"

definition get_properties_from_molecule ::
  "string \<Rightarrow> string list \<Rightarrow> string list \<Rightarrow> molecule \<Rightarrow> error + molecule" where
  "get_properties_from_molecule name_arg properties atomic_properties mol =
     ebind (node_container name_arg mol) (\<lambda>_.
     ebind (efold (\<lambda>property_name mol.
                     case mol_dict mol property_name of
                       Some v \<Rightarrow> set_container_value name_arg property_name v mol
                     | None \<Rightarrow> Inr mol)
              properties mol) (\<lambda>mol.
     efold (\<lambda>property_name mol.
              ebind (emap (atom_property property_name) (atoms mol)) (\<lambda>rows.
              set_container_value name_arg property_name (Val (Matrix rows)) mol))
       atomic_properties mol))"

text \<open>\<open>update_molecular_properties\<close> (lines 1064-1075).\<close>

definition container_value :: "string \<Rightarrow> string \<Rightarrow> molecule \<Rightarrow> error + entry" where
  "container_value name_arg property_name mol =
     ebind (node_container name_arg mol) (\<lambda>(a, c).
       case pt_values c property_name of
         None \<Rightarrow> Inl (KeyError property_name)
       | Some v \<Rightarrow> Inr v)"

definition row_of :: "entry \<Rightarrow> nat \<Rightarrow> error + real list" where
  "row_of v iatom =
     (case v of
        Val (Matrix rows) \<Rightarrow> if iatom < length rows then Inr (rows ! iatom) else Inl IndexError
      | _ \<Rightarrow> Inl TypeError)"

definition update_molecular_properties ::
  "string \<Rightarrow> string list \<Rightarrow> string list \<Rightarrow> molecule \<Rightarrow> error + molecule" where
  "update_molecular_properties name_arg properties atomic_properties mol =
     ebind (efold (\<lambda>property_name mol.
                     ebind (container_value name_arg property_name mol) (\<lambda>v.
                     Inr (mol\<lparr>mol_dict := (mol_dict mol)(property_name \<mapsto> v)\<rparr>)))
              properties mol) (\<lambda>mol.
     efold (\<lambda>property_name mol.
              efold (\<lambda>iatom mol.
                       ebind (container_value name_arg property_name mol) (\<lambda>v.
                       ebind (row_of v iatom) (\<lambda>row.
                       Inr (mol\<lparr>atoms := (atoms mol)
                                   [iatom := set_atom_property property_name row (atoms mol ! iatom)]\<rparr>))))
                [0..<length (atoms mol)] mol)
       atomic_properties mol)"

text \<open>\<open>model_tree_node.predict\<close> (lines 1003-1052), on the list of the molecules of \<open>molDB\<close>.\<close>

definition combine_at ::
  "(string list \<Rightarrow> entry \<Rightarrow> molecule \<Rightarrow> error + molecule) \<Rightarrow> string \<Rightarrow> string list \<Rightarrow> molecule \<Rightarrow>
   error + molecule" where
  "combine_at operation name_arg properties mol =
     (case mol_dict mol name_arg of
        None \<Rightarrow> Inl (KeyError name_arg)
      | Some self \<Rightarrow> operation properties self mol)"

fun node_predict ::
  "string option \<Rightarrow> model_tree_node \<Rightarrow> predict_flags \<Rightarrow> molecule list \<Rightarrow> error + molecule list" where
  "node_predict parent_name (Model_tree_node name_arg children operator model) flags molDB =
     (let properties = requested_properties flags;
          atomic_properties = requested_atomic_properties flags
      in
      ebind (emap (ensure_container parent_name name_arg (map_option (map node_name) children))
               molDB) (\<lambda>molDB.
      ebind (if children = None \<and> operator = Some ''predict''
             then
               (case model of
                  None \<Rightarrow> Inl (AttributeError ''predict'')
                | Some m \<Rightarrow>
                    ebind (emap (leaf_model_predict m flags) molDB) (\<lambda>molDB.
                    emap (get_properties_from_molecule name_arg properties atomic_properties) molDB))
             else
               (case children of
                  None \<Rightarrow> Inl TypeError
                | Some cs \<Rightarrow>
                    ebind (efold (\<lambda>child molDB.
                                    case molDB of
                                      [] \<Rightarrow> Inl IndexError
                                    | mol0 # _ \<Rightarrow>
                                        if node_name child \<in> dom (mol_dict mol0) then Inr molDB
                                        else node_predict (Some name_arg) child flags molDB)
                             cs molDB) (\<lambda>molDB.
                    ebind (if operator = Some ''sum''
                           then emap (combine_at properties_tree_node_sum name_arg
                                        (properties @ atomic_properties)) molDB
                           else Inr molDB) (\<lambda>molDB.
                    if operator = Some ''average''
                    then emap (combine_at properties_tree_node_average name_arg
                                 (properties @ atomic_properties)) molDB
                    else Inr molDB)))) (\<lambda>molDB.
      if parent_name = None
      then emap (update_molecular_properties name_arg properties atomic_properties) molDB
      else Inr molDB)))"

text \<open>
  The elementwise sum and mean of the specification, entry by entry: the sum of numbers,
  or the array whose entry \<open>(i, j)\<close> is the sum of the entries \<open>(i, j)\<close> of all the
  arrays; the mean is the sum divided by the number of values.
\<close>

fun scalar_of :: "pval \<Rightarrow> real" where
  "scalar_of (Scalar x) = x"
| "scalar_of (Matrix a) = 0"

fun matrix_of :: "pval \<Rightarrow> real list list" where
  "matrix_of (Matrix a) = a"
| "matrix_of (Scalar x) = []"

definition elementwise_sum :: "pval list \<Rightarrow> pval" where
  "elementwise_sum vs =
     (case vs of
        [] \<Rightarrow> Scalar 0
      | Scalar x # _ \<Rightarrow> Scalar (sum_list (map scalar_of vs))
      | Matrix a # _ \<Rightarrow>
          Matrix (map (\<lambda>i. map (\<lambda>j. sum_list (map (\<lambda>v. matrix_of v ! i ! j) vs))
                                [0..<length (a ! i)])
                    [0..<length a]))"

definition elementwise_mean :: "pval list \<Rightarrow> pval" where
  "elementwise_mean vs = pval_div (elementwise_sum vs) (real (length vs))"


text \<open>
  The state of a molecule after the combination at the container \<open>a\<close> of a node: the
  container holds the combined value \<open>r p\<close> under every requested property \<open>p\<close>, and,
  at the root, the molecule holds it under the top-level names and every atom its row
  of the combined gradients.
\<close>

definition upd_all :: "(string \<rightharpoonup> entry) \<Rightarrow> string list \<Rightarrow> (string \<Rightarrow> pval) \<Rightarrow> (string \<rightharpoonup> entry)" where
  "upd_all m ps r = (\<lambda>k. if k \<in> set ps then Some (Val (r k)) else m k)"

definition annotate_atoms :: "string \<Rightarrow> real list list \<Rightarrow> atom list \<Rightarrow> atom list" where
  "annotate_atoms q rows as = map (\<lambda>i. set_atom_property q (rows ! i) (as ! i)) [0..<length as]"

definition combined_state :: "nat \<Rightarrow> predict_flags \<Rightarrow> (string \<Rightarrow> pval) \<Rightarrow> molecule \<Rightarrow> molecule" where
  "combined_state a flags r mol =
     mol\<lparr>store := (store mol)
             [a := (store mol ! a)
                \<lparr>pt_values := upd_all (pt_values (store mol ! a))
                     (requested_properties flags @ requested_atomic_properties flags) r\<rparr>],
         mol_dict := upd_all (mol_dict mol) (requested_properties flags) r,
         atoms := (if calculate_energy_gradients flags
                   then annotate_atoms ''energy_gradients'' (matrix_of (r ''energy_gradients''))
                          (atoms mol)
                   else atoms mol)\<rparr>"

text \<open>
  Three leaves that report fixed energies and gradients, under one root, on a molecule
  of two atoms; and the molecule after the root has made its container and each of the
  leaves has predicted as a child of the root.
\<close>

definition fixed_model :: "real \<Rightarrow> real list list \<Rightarrow> leaf_model" where
  "fixed_model e g = \<lparr>energy_of = (\<lambda>atoms. e), gradients_of = (\<lambda>atoms. g), hessian_of = (\<lambda>atoms. [])\<rparr>"

definition leaf :: "string \<Rightarrow> leaf_model \<Rightarrow> model_tree_node" where
  "leaf name_arg m = Model_tree_node name_arg None (Some ''predict'') (Some m)"

definition three_leaves :: "model_tree_node list" where
  "three_leaves =
     [leaf ''nn0'' (fixed_model 1 [[1, 0, 0], [0, 1, 0]]),
      leaf ''nn1'' (fixed_model 2 [[2, 0, 0], [0, 2, 0]]),
      leaf ''nn2'' (fixed_model 6 [[3, 0, 0], [0, 3, 6]])]"

definition hydrogen :: molecule where
  "hydrogen =
     \<lparr>atoms = [\<lparr>atomic_number = 1, xyz_coordinates = [0, 0, 0], atom_dict = Map.empty\<rparr>,
               \<lparr>atomic_number = 1, xyz_coordinates = [0, 0, 1], atom_dict = Map.empty\<rparr>],
      mol_dict = Map.empty, store = []\<rparr>"

definition energy_and_gradients :: predict_flags where
  "energy_and_gradients =
     \<lparr>calculate_energy = True, calculate_energy_gradients = True, calculate_hessian = False\<rparr>"

definition children_done :: "error + molecule list" where
  "children_done =
     ebind (emap (ensure_container None ''root'' (Some (map node_name three_leaves))) [hydrogen])
       (efold (\<lambda>child. node_predict (Some ''root'') child energy_and_gradients) three_leaves)"

definition reported :: "string \<Rightarrow> pval list" where
  "reported p =
     (if p = ''energy'' then [Scalar 1, Scalar 2, Scalar 6]
      else [Matrix [[1, 0, 0], [0, 1, 0]], Matrix [[2, 0, 0], [0, 2, 0]],
            Matrix [[3, 0, 0], [0, 3, 6]]])"

definition after_children :: molecule where
  "after_children = (case children_done of Inr [mol] \<Rightarrow> mol | _ \<Rightarrow> hydrogen)"

definition sum_tree :: model_tree_node where
  "sum_tree = Model_tree_node ''root'' (Some three_leaves) (Some ''sum'') None"

definition average_tree :: model_tree_node where
  "average_tree = Model_tree_node ''root'' (Some three_leaves) (Some ''average'') None"

definition summed :: molecule where
  "summed = combined_state 0 energy_and_gradients (\<lambda>p. elementwise_sum (reported p)) after_children"

definition averaged :: molecule where
  "averaged = combined_state 0 energy_and_gradients (\<lambda>p. elementwise_mean (reported p)) after_children"

section \<open>The ANI methods: \<open>ani_methods.predict\<close>\<close>

text \<open>
  An object of the class \<open>ani_methods\<close> (torchani_interface.py, lines 598-670) after
  its construction: the name of the method, the atomic numbers the networks know, and
  the model tree. \<open>standard_deviation\<close> is a method of \<open>data.properties_tree_node\<close>,
  outside the sources at hand, and is a parameter. What \<open>print\<close> writes is appended
  to the list of printed lines.
\<close>

record ani_methods =
  ani_method :: string
  atomic_number_available :: "nat list"
  ani_model :: model_tree_node

fun contains :: "string \<Rightarrow> string \<Rightarrow> bool" where
  "contains [] t = (t = [])"
| "contains (c # cs) t = (take (length t) (c # cs) = t \<or> contains cs t)"

definition atomic_energies :: "string \<rightharpoonup> (nat \<rightharpoonup> real)" where
  "atomic_energies =
     [''ANI-1ccx'' \<mapsto> [1 \<mapsto> - 0.50088088, 6 \<mapsto> - 37.79199048, 7 \<mapsto> - 54.53379230,
                          8 \<mapsto> - 75.00968205]]"

definition warning_unsupported :: "string \<Rightarrow> string" where
  "warning_unsupported method_name =
     '' * Warning * Molecule contains elements other than ''
     @ (if contains (casefold method_name) (casefold ''ANI-2x'') then ''C/H/N/O/F/S/Cl'' else ''CHNO'')
     @ '', no calculations performed''"

definition predict_for_molecule ::
  "(string list \<Rightarrow> entry \<Rightarrow> molecule \<Rightarrow> error + molecule) \<Rightarrow> ani_methods \<Rightarrow> predict_flags \<Rightarrow>
   molecule \<times> string list \<Rightarrow> error + (molecule \<times> string list)" where
  "predict_for_molecule standard_deviation self flags st =
     (case st of (molecule, printed) \<Rightarrow>
        if \<not> list_all (\<lambda>atom. atomic_number atom \<in> set (atomic_number_available self))
                 (atoms molecule)
        then Inr (molecule, printed @ [warning_unsupported (ani_method self)])
        else if length (atoms molecule) = 1
        then
          (case atomic_energies (ani_method self) of
             None \<Rightarrow> Inl (KeyError (ani_method self))
           | Some table \<Rightarrow>
               (case table (atomic_number (atoms molecule ! 0)) of
                  None \<Rightarrow> Inl (KeyError ''atomic_number'')
                | Some e \<Rightarrow>
                    Inr (molecule\<lparr>mol_dict := (mol_dict molecule)(''energy'' \<mapsto> Val (Scalar e))\<rparr>,
                         printed)))
        else
          ebind (node_predict None (ani_model self) flags [molecule]) (\<lambda>molDB.
          case molDB of
            [molecule] \<Rightarrow>
              (let modelname = filter (\<lambda>c. c \<noteq> CHR ''-'') (map lower_char (ani_method self));
                   modelname = (if contains (casefold (ani_method self)) (casefold ''D4'')
                                then modelname @ ''_nn'' else modelname)
               in case mol_dict molecule modelname of
                    None \<Rightarrow> Inl (KeyError modelname)
                  | Some node \<Rightarrow>
                      ebind (standard_deviation
                               (requested_properties flags @ requested_atomic_properties flags)
                               node molecule) (\<lambda>molecule.
                      Inr (molecule, printed)))
          | _ \<Rightarrow> Inl IndexError))"

text \<open>
  \<open>ani_methods.predict\<close> (lines 637-642): the argument check of \<open>model.predict\<close>,
  then every molecule in turn.
\<close>

definition ani_methods_predict ::
  "(string list \<Rightarrow> entry \<Rightarrow> molecule \<Rightarrow> error + molecule) \<Rightarrow> ani_methods \<Rightarrow>
   molecule molecular_database option \<Rightarrow> molecule option \<Rightarrow> predict_flags \<Rightarrow> string list \<Rightarrow>
   error + (molecule list \<times> string list)" where
  "ani_methods_predict standard_deviation self molecular_database molecule flags printed =
     ebind (model_predict molecular_database molecule) (\<lambda>molDB.
     efold (\<lambda>i (mols, printed).
              ebind (predict_for_molecule standard_deviation self flags (mols ! i, printed))
                (\<lambda>(mol, printed). Inr (mols[i := mol], printed)))
       [0..<length (molecules molDB)] (molecules molDB, printed))"

text \<open>
  The species check at the head of \<open>ani.data_setup\<close> (lines 531-545), which training
  starts with: the element symbols of the database, sorted and without repetition,
  become the species order when there is none; when there is one and an element is
  outside it, a line is printed and \<open>data_setup\<close> returns. The rest of \<open>data_setup\<close>,
  which builds the TorchANI data sets, is the parameter \<open>rest\<close>.
\<close>

definition data_setup ::
  "(string list \<Rightarrow> 's \<Rightarrow> error + 's) \<Rightarrow> string list \<Rightarrow> string list \<Rightarrow> 's \<times> string list \<Rightarrow>
   error + (string list \<times> 's \<times> string list)" where
  "data_setup rest species_order element_symbols st =
     (case st of (s, printed) \<Rightarrow>
        let data_element_symbols = sort (remdups element_symbols) in
        if species_order = []
        then ebind (rest data_element_symbols s) (\<lambda>s. Inr (data_element_symbols, s, printed))
        else if \<not> list_all (\<lambda>element. element \<in> set species_order) data_element_symbols
        then Inr (species_order, s,
                  printed @ [''element(s) outside supported species detected, please check the database''])
        else ebind (rest species_order s) (\<lambda>s. Inr (species_order, s, printed)))"

text \<open>The method ANI-1x, with any model tree, and hydrogen fluoride.\<close>

definition ani1x :: "model_tree_node \<Rightarrow> ani_methods" where
  "ani1x tree = \<lparr>ani_method = ''ANI-1x'', atomic_number_available = [1, 6, 7, 8], ani_model = tree\<rparr>"

definition hydrogen_fluoride :: molecule where
  "hydrogen_fluoride =
     \<lparr>atoms = [\<lparr>atomic_number = 1, xyz_coordinates = [0, 0, 0], atom_dict = Map.empty\<rparr>,
               \<lparr>atomic_number = 9, xyz_coordinates = [0, 0, 1], atom_dict = Map.empty\<rparr>],
      mol_dict = Map.empty, store = []\<rparr>"

definition no_standard_deviation :: "string list \<Rightarrow> entry \<Rightarrow> molecule \<Rightarrow> error + molecule" where
  "no_standard_deviation properties self mol = Inr mol"

definition ani1x_tree :: model_tree_node where
  "ani1x_tree =
     Model_tree_node ''ani1x''
       (Some [Model_tree_node ''ani1x_nn0'' None (Some ''predict'')
                (Some \<lparr>energy_of = (\<lambda>atoms. 0), gradients_of = (\<lambda>atoms. map (\<lambda>a. [0, 0, 0]) atoms),
                        hessian_of = (\<lambda>atoms. [])\<rparr>)])
       (Some ''average'') None"

section \<open>The kernel matrix of \<open>krr.train\<close>\<close>

text \<open>
  The geometry of a molecule, \<open>mol.xyz_coordinates\<close>, is an array of one row of three
  coordinates for every atom. The kernel matrix is a two-dimensional array of numbers,
  a list of rows; \<open>tabulate n f\<close> is the array of \<open>n\<close> rows and \<open>n\<close> columns with
  the entry \<open>f r c\<close> in row \<open>r\<close> and column \<open>c\<close>.
\<close>

type_synonym point = "real \<times> real \<times> real"

type_synonym geometry = "point list"

definition tabulate :: "nat \<Rightarrow> (nat \<Rightarrow> nat \<Rightarrow> real) \<Rightarrow> real list list" where
  "tabulate n f = map (\<lambda>r. map (f r) [0..<n]) [0..<n]"

text \<open>
  The assignments of NumPy that \<open>krr.train\<close> uses on \<open>kernel_matrix\<close>, of size
  \<open>length K\<close>. An array of derivatives is read by the index of its entry: entry \<open>t\<close>
  of \<open>gradients.reshape(3*Natoms)\<close>, entry \<open>(s, t)\<close> of \<open>Hessian\<close>.

  \<^item> \<open>K[r][c] += v\<close>
  \<^item> \<open>K[r, c0:c0+m] += g\<close> and \<open>K[r, c0:c0+m] = g\<close>
  \<^item> \<open>K[r0:r0+m, c0:c0+m] += H\<close>
  \<^item> \<open>K[n:, :n] = K[:n, n:].T\<close>
\<close>

definition add_entry :: "nat \<Rightarrow> nat \<Rightarrow> real \<Rightarrow> real list list \<Rightarrow> real list list" where
  "add_entry r c v K =
     tabulate (length K) (\<lambda>i j. if i = r \<and> j = c then K ! i ! j + v else K ! i ! j)"

definition add_row_segment ::
  "nat \<Rightarrow> nat \<Rightarrow> nat \<Rightarrow> (nat \<Rightarrow> real) \<Rightarrow> real list list \<Rightarrow> real list list" where
  "add_row_segment r c0 m g K =
     tabulate (length K)
       (\<lambda>i j. if i = r \<and> c0 \<le> j \<and> j < c0 + m then K ! i ! j + g (j - c0) else K ! i ! j)"

definition set_row_segment ::
  "nat \<Rightarrow> nat \<Rightarrow> nat \<Rightarrow> (nat \<Rightarrow> real) \<Rightarrow> real list list \<Rightarrow> real list list" where
  "set_row_segment r c0 m g K =
     tabulate (length K)
       (\<lambda>i j. if i = r \<and> c0 \<le> j \<and> j < c0 + m then g (j - c0) else K ! i ! j)"

definition add_block ::
  "nat \<Rightarrow> nat \<Rightarrow> nat \<Rightarrow> (nat \<Rightarrow> nat \<Rightarrow> real) \<Rightarrow> real list list \<Rightarrow> real list list" where
  "add_block r0 c0 m H K =
     tabulate (length K)
       (\<lambda>i j. if r0 \<le> i \<and> i < r0 + m \<and> c0 \<le> j \<and> j < c0 + m
               then K ! i ! j + H (i - r0) (j - c0) else K ! i ! j)"

definition mirror_cross_blocks :: "nat \<Rightarrow> real list list \<Rightarrow> real list list" where
  "mirror_cross_blocks n K =
     tabulate (length K) (\<lambda>i j. if n \<le> i \<and> j < n then K ! j ! i else K ! i ! j)"

text \<open>
  What a call of \<open>self.kernel_function\<close> returns with all of its flags set: the value
  of the kernel, its gradient in the coordinates of the first geometry, its gradient in
  the coordinates of the second (\<open>gradients_j\<close>), and \<open>Hessian\<close>, whose row \<open>s\<close> is the
  gradient of entry \<open>s\<close> of \<open>gradients\<close> in the coordinates of the second geometry.
  \<open>krr.train\<close> reads only what it has asked for.
\<close>

record kernel_output =
  kernel_value :: real
  kernel_gradients :: "nat \<Rightarrow> real"
  kernel_gradients_j :: "nat \<Rightarrow> real"
  kernel_Hessian :: "nat \<Rightarrow> nat \<Rightarrow> real"

text \<open>
  The construction of \<open>kernel_matrix\<close> in \<open>krr.train\<close> (models.py, lines 562-614) with
  a property to learn (\<open>property_to_learn\<close>, \<open>'y'\<close> by default) and, when
  \<open>derivative\<close> holds, with \<open>xyz_derivative_property_to_learn\<close>. \<open>np.array\<close> with
  \<open>astype(float)\<close> refuses geometries of different numbers of atoms, and \<open>xyz[0]\<close>
  an empty database. \<open>lam\<close> is \<open>self.hyperparameters['lambda'].value\<close>, and \<open>len(yy)\<close>
  is the number of the molecules. The matrix has \<open>len(yy) + 3*Natoms*len(yy)\<close> rows
  with derivative labels, so every index that is written (lines 595-614) is inside it.
\<close>

definition pair_step ::
  "(geometry \<Rightarrow> geometry \<Rightarrow> error + kernel_output) \<Rightarrow> bool \<Rightarrow> geometry list \<Rightarrow> nat \<Rightarrow> nat \<Rightarrow>
   nat \<Rightarrow> nat \<Rightarrow> real list list \<Rightarrow> error + real list list" where
  "pair_step kernel_function derivative xyz n m ii jj K =
     ebind (kernel_function (xyz ! ii) (xyz ! jj)) (\<lambda>value_and_derivatives.
     let K = add_entry ii jj (kernel_value value_and_derivatives) K;
         K = add_entry jj ii (kernel_value value_and_derivatives) K
     in Inr (if derivative
             then add_block (n + jj * m) (n + ii * m) m (kernel_Hessian value_and_derivatives)
                    (add_block (n + ii * m) (n + jj * m) m (kernel_Hessian value_and_derivatives)
                       (set_row_segment ii (n + jj * m) m (kernel_gradients_j value_and_derivatives)
                          (set_row_segment jj (n + ii * m) m (kernel_gradients value_and_derivatives) K)))
             else K))"

definition row_step ::
  "(geometry \<Rightarrow> geometry \<Rightarrow> error + kernel_output) \<Rightarrow> bool \<Rightarrow> geometry list \<Rightarrow> nat \<Rightarrow> nat \<Rightarrow>
   nat \<Rightarrow> real list list \<Rightarrow> error + real list list" where
  "row_step kernel_function derivative xyz n m ii K =
     ebind (kernel_function (xyz ! ii) (xyz ! ii)) (\<lambda>value_and_derivatives.
     let K = add_entry ii ii (kernel_value value_and_derivatives) K;
         K = (if derivative
              then add_block (n + ii * m) (n + ii * m) m (kernel_Hessian value_and_derivatives)
                     (add_row_segment ii (n + ii * m) m (kernel_gradients value_and_derivatives) K)
              else K)
     in efold (pair_step kernel_function derivative xyz n m ii) [ii + 1..<n] K)"

definition krr_kernel_matrix ::
  "(geometry \<Rightarrow> geometry \<Rightarrow> error + kernel_output) \<Rightarrow> real \<Rightarrow> bool \<Rightarrow> geometry list \<Rightarrow>
   error + real list list" where
  "krr_kernel_matrix kernel_function lam derivative xyz =
     (if \<exists>coord \<in> set xyz. length coord \<noteq> length (hd xyz)
      then Inl (ValueError ''setting an array element with a sequence'')
      else if xyz = [] then Inl IndexError
      else
        (let n = length xyz;
             Natoms = length (xyz ! 0);
             m = 3 * Natoms;
             kernel_matrix_size = n + (if derivative then m * n else 0);
             K = tabulate kernel_matrix_size (\<lambda>i j. if i = j then lam else 0)
         in ebind (efold (row_step kernel_function derivative xyz n m) [0..<n] K) (\<lambda>K.
            Inr (if derivative then mirror_cross_blocks n K else K))))"

text \<open>The matrix without the ridge term \<open>lam\<close> on its diagonal, and the transpose.\<close>

definition minus_ridge :: "real \<Rightarrow> real list list \<Rightarrow> real list list" where
  "minus_ridge lam K = tabulate (length K) (\<lambda>i j. K ! i ! j - (if i = j then lam else 0))"

definition matrix_T :: "real list list \<Rightarrow> real list list" where
  "matrix_T K = tabulate (length K) (\<lambda>i j. K ! j ! i)"

definition symmetric :: "real list list \<Rightarrow> bool" where
  "symmetric K = (matrix_T K = K)"

text \<open>
  \<open>gaussian_kernel_function\<close> with \<open>RE_descriptor_tensor\<close> (models.py, lines 668-719):
  the descriptor of a geometry has one entry for every pair of atoms, \<open>Req[c]\<close> over
  the distance of the pair, and the kernel is
  \<open>exp(sum((xi - xj)\<^sup>2) / (-2 sigma\<^sup>2))\<close> on the descriptors. The descriptor of a
  geometry of fewer than two atoms is never assigned, and \<open>Req\<close> must have an entry
  for every pair.

  The derivatives that \<open>torch.autograd.grad\<close> returns are written out. With \<open>k\<close> the
  value, \<open>D c\<close> the difference of the descriptors in entry \<open>c\<close>, and \<open>Ji c a\<close>,
  \<open>Jj c b\<close> the derivatives of entry \<open>c\<close> of the descriptor of the first and of the
  second geometry in their coordinates \<open>a\<close> and \<open>b\<close>:

  \<^item> \<open>gradients a = - k / sigma\<^sup>2 * (\<Sum>c. D c * Ji c a)\<close>
  \<^item> \<open>gradients_j b = k / sigma\<^sup>2 * (\<Sum>c. D c * Jj c b)\<close>
  \<^item> \<open>Hessian a b = k / sigma\<^sup>2 * ((\<Sum>c. Ji c a * Jj c b) - (\<Sum>c. D c * Ji c a) * (\<Sum>c. D c * Jj c b) / sigma\<^sup>2)\<close>
\<close>

fun component :: "point \<Rightarrow> nat \<Rightarrow> real" where
  "component (x, y, z) q = (if q = 0 then x else if q = 1 then y else z)"

fun distance_squared_tensor :: "point \<Rightarrow> point \<Rightarrow> real" where
  "distance_squared_tensor (x, y, z) (u, v, w) = (x - u)\<^sup>2 + (y - v)\<^sup>2 + (z - w)\<^sup>2"

definition distance_tensor :: "point \<Rightarrow> point \<Rightarrow> real" where
  "distance_tensor atomi atomj = sqrt (distance_squared_tensor atomi atomj)"

definition atom_pairs :: "nat \<Rightarrow> (nat \<times> nat) list" where
  "atom_pairs Natoms = concat (map (\<lambda>iatom. map (Pair iatom) [iatom + 1..<Natoms]) [0..<Natoms])"

definition RE_descriptor_tensor :: "geometry \<Rightarrow> real list \<Rightarrow> real list" where
  "RE_descriptor_tensor coord Req =
     map (\<lambda>icount. case atom_pairs (length coord) ! icount of
                      (iatom, jatom) \<Rightarrow> Req ! icount / distance_tensor (coord ! iatom) (coord ! jatom))
       [0..<length (atom_pairs (length coord))]"

definition descriptor_derivative :: "geometry \<Rightarrow> real list \<Rightarrow> nat \<Rightarrow> nat \<Rightarrow> real" where
  "descriptor_derivative coord Req icount a =
     (case atom_pairs (length coord) ! icount of
        (iatom, jatom) \<Rightarrow>
          let g = Req ! icount
                    * (component (coord ! iatom) (a mod 3) - component (coord ! jatom) (a mod 3))
                    / distance_tensor (coord ! iatom) (coord ! jatom) ^ 3
          in if a div 3 = iatom then - g else if a div 3 = jatom then g else 0)"

definition descriptor_error :: "geometry \<Rightarrow> real list \<Rightarrow> error option" where
  "descriptor_error coord Req =
     (if length Req < length (atom_pairs (length coord)) then Some IndexError
      else if length coord < 2 then Some (UnboundLocalError ''descriptor'')
      else None)"

definition gaussian_kernel_function ::
  "real \<Rightarrow> real list \<Rightarrow> geometry \<Rightarrow> geometry \<Rightarrow> error + kernel_output" where
  "gaussian_kernel_function sigma Req coordi coordj =
     (case descriptor_error coordi Req of
        Some e \<Rightarrow> Inl e
      | None \<Rightarrow>
     (case descriptor_error coordj Req of
        Some e \<Rightarrow> Inl e
      | None \<Rightarrow>
        (let xi = RE_descriptor_tensor coordi Req;
             xj = RE_descriptor_tensor coordj Req;
             cs = [0..<length xi];
             k = exp ((\<Sum>c\<leftarrow>cs. (xi ! c - xj ! c)\<^sup>2) / (- 2 * sigma\<^sup>2));
             di = (\<lambda>a. \<Sum>c\<leftarrow>cs. (xi ! c - xj ! c) * descriptor_derivative coordi Req c a);
             dj = (\<lambda>b. \<Sum>c\<leftarrow>cs. (xi ! c - xj ! c) * descriptor_derivative coordj Req c b)
         in Inr \<lparr>kernel_value = k,
                 kernel_gradients = (\<lambda>a. - k / sigma\<^sup>2 * di a),
                 kernel_gradients_j = (\<lambda>b. k / sigma\<^sup>2 * dj b),
                 kernel_Hessian =
                   (\<lambda>a b. k / sigma\<^sup>2
                           * ((\<Sum>c\<leftarrow>cs. descriptor_derivative coordi Req c a
                                        * descriptor_derivative coordj Req c b)
                              - di a * dj b / sigma\<^sup>2))\<rparr>)))"

text \<open>
  Two molecules of two atoms at the same distance \<open>1\<close>, the first along the first axis
  and the second along the second axis.
\<close>

definition two_orientations :: "geometry list" where
  "two_orientations = [[(0, 0, 0), (1, 0, 0)], [(0, 0, 0), (0, 1, 0)]]"

text \<open>A square array of \<open>n\<close> rows whose entries \<open>(i, j)\<close> and \<open>(j, i)\<close> agree.\<close>

definition symmetric_entries :: "nat \<Rightarrow> real list list \<Rightarrow> bool" where
  "symmetric_entries n K = (length K = n \<and> (\<forall>i < n. \<forall>j < n. K ! i ! j = K ! j ! i))"

section \<open>Theorems\<close>

subsection \<open>C1: the arguments of \<open>predict\<close>\<close>

text \<open>
  C1, as stated, fails: with both a molecule and a molecular database supplied,
  \<open>model.predict\<close> raises nothing and returns the database.
\<close>

theorem C1_both_supplied_counterexample:
  "\<not> isl (model_predict (Some \<lparr>molecules = [1::nat, 2]\<rparr>) (Some 3))"
  by (simp add: model_predict_def)

text \<open>
  C1, amended: with neither argument the call fails with the invalid-argument error
  (\<open>ValueError\<close>); with a molecular database the call proceeds on that database, whether
  or not a molecule is supplied as well; with a molecule only it proceeds on the
  one-molecule database of that molecule.
\<close>

theorem C1_predict_arguments:
  "model_predict None None =
     Inl (ValueError ''Either molecule or molecular_database should be provided in input'')
   \<and> model_predict (Some db) molecule = Inr db
   \<and> model_predict None (Some m) = Inr \<lparr>molecules = [m]\<rparr>"
  by (simp add: model_predict_def)

subsection \<open>C7: Cholesky first, LU as the single fallback\<close>



subsection \<open>C5: the default validation loss\<close>














subsection \<open>C6: the cycles of cross-validation\<close>

lemma foldl_cv_aux:
  "foldl (\<lambda>acc jj. if ii \<noteq> jj then acc @ molecules (splits ! jj) else acc) acc [a..<b]
   = acc @ concat (map (\<lambda>jj. molecules (splits ! jj)) (filter (\<lambda>jj. ii \<noteq> jj) [a..<b]))"
proof (induction b arbitrary: acc)
  case 0 then show ?case by simp
next
  case (Suc b) then show ?case by (cases "a \<le> b") auto
qed

lemma filter_neq_upt:
  assumes "i < n"
  shows "filter (\<lambda>jj. i \<noteq> jj) [0..<n] = [0..<i] @ [Suc i..<n]"
proof -
  have "[0..<n] = [0..<i] @ [i..<n]"
    using assms upt_add_eq_append [of 0 i "n - i"] by simp
  also have "[i..<n] = i # [Suc i..<n]"
    using assms by (simp add: upt_conv_Cons)
  finally show ?thesis by auto
qed

lemma map_nth_upt_take: "i \<le> length xs \<Longrightarrow> map (\<lambda>j. f (xs ! j)) [0..<i] = map f (take i xs)"
  by (rule nth_equalityI) auto

lemma map_nth_upt_drop: "map (\<lambda>j. f (xs ! j)) [i..<length xs] = map f (drop i xs)"
  by (rule nth_equalityI) auto

lemma cv_subtraining_closed:
  assumes "i < length splits"
  shows "cv_subtraining splits i = concat (map molecules (take i splits @ drop (Suc i) splits))"
proof -
  have "cv_subtraining splits i
        = concat (map (\<lambda>jj. molecules (splits ! jj)) ([0..<i] @ [Suc i..<length splits]))"
    unfolding cv_subtraining_def foldl_cv_aux using assms by (simp add: filter_neq_upt)
  also have "\<dots> = concat (map molecules (take i splits @ drop (Suc i) splits))"
    using assms by (simp add: map_nth_upt_take map_nth_upt_drop)
  finally show ?thesis .
qed


lemma efold_cong_upt:
  "(\<And>i s. i \<in> set xs \<Longrightarrow> f i s = g i s) \<Longrightarrow> efold f xs s = efold g xs s"
  by (induction xs arbitrary: s) (auto simp: ebind_def split: sum.splits)

lemma recording_cycle:
  "ebind (train recording_model a tk calls) (\<lambda>s.
     ebind (predict recording_model b pk s) (\<lambda>s. reset recording_model s))
   = Inr (calls @ [Train a, Predict b, Reset])"
  by (simp add: recording_model_def ebind_def)

lemma efold_recording:
  "efold (\<lambda>ii s. Inr (s @ g ii)) xs calls = Inr (calls @ concat (map g xs))"
  by (induction xs arbitrary: calls) (auto simp: ebind_def)

lemma cross_validation_recording:
  "cross_validation recording_model splits tk pk calls
   = Inr (calls @ concat (map (cv_cycle splits) [0..<length splits]))"
proof -
  have "cross_validation recording_model splits tk pk calls
        = efold (\<lambda>ii s. Inr (s @ cv_cycle splits ii)) [0..<length splits] calls"
    unfolding cross_validation_def
    by (rule efold_cong_upt) (simp add: recording_cycle cv_cycle_def cv_subtraining_closed)
  then show ?thesis by (simp add: efold_recording)
qed

lemma predicted_append: "predicted (xs @ ys) = predicted xs @ predicted ys"
  by (induction xs rule: predicted.induct) auto

lemma predicted_cycles_aux:
  "n \<le> length splits \<Longrightarrow>
   predicted (concat (map (cv_cycle splits) [0..<n])) = concat (map molecules (take n splits))"
proof (induction n)
  case 0 then show ?case by simp
next
  case (Suc n)
  then show ?case
    by (simp add: predicted_append cv_cycle_def take_Suc_conv_app_nth)
qed

text \<open>
  C6: for every list of k splits, cross-validation is k cycles, the \<open>i\<close>-th one being
  training on the concatenation of all splits but the \<open>i\<close>-th, prediction on the
  \<open>i\<close>-th split, and reset. Seen through the recording model: the calls are exactly
  those 3k calls in that order, and the molecules predicted, in order, are the molecules
  of all the splits, each occurrence once.
\<close>

theorem C6_cross_validation_cycles:
  "cross_validation self splits tk pk s
     = efold (\<lambda>i s.
         ebind (train self (concat (map molecules (take i splits @ drop (Suc i) splits)))
                  (kwargs_or_empty tk) s) (\<lambda>s.
         ebind (predict self (molecules (splits ! i)) (kwargs_or_empty pk) s) (\<lambda>s.
         reset self s)))
        [0..<length splits] s
   \<and> cross_validation recording_model splits tk pk []
     = Inr (concat (map (cv_cycle splits) [0..<length splits]))
   \<and> length (concat (map (cv_cycle splits) [0..<length splits])) = 3 * length splits
   \<and> predicted (concat (map (cv_cycle splits) [0..<length splits]))
     = concat (map molecules splits)"
proof -
  have a: "cross_validation self splits tk pk s
     = efold (\<lambda>i s.
         ebind (train self (concat (map molecules (take i splits @ drop (Suc i) splits)))
                  (kwargs_or_empty tk) s) (\<lambda>s.
         ebind (predict self (molecules (splits ! i)) (kwargs_or_empty pk) s) (\<lambda>s.
         reset self s)))
        [0..<length splits] s"
    unfolding cross_validation_def
    by (rule efold_cong_upt) (simp add: cv_subtraining_closed)
  have b: "cross_validation recording_model splits tk pk []
     = Inr (concat (map (cv_cycle splits) [0..<length splits]))"
    using cross_validation_recording [of splits tk pk "[]"] by simp
  have c: "length (concat (map (cv_cycle splits) [0..<length splits])) = 3 * length splits"
    by (simp add: length_concat cv_cycle_def o_def sum_list_triv)
  have d: "predicted (concat (map (cv_cycle splits) [0..<length splits]))
     = concat (map molecules splits)"
    using predicted_cycles_aux [of "length splits" splits] by simp
  from a b c d show ?thesis by simp
qed

subsection \<open>C4: the grid search\<close>

lemma arg_min_list_append:
  "xs \<noteq> [] \<Longrightarrow> ys \<noteq> [] \<Longrightarrow>
   arg_min_list f (xs @ ys) =
     (if f (arg_min_list f xs) \<le> f (arg_min_list f ys) then arg_min_list f xs
      else arg_min_list f ys)"
proof (induction f xs rule: arg_min_list.induct)
  case (1 f x)
  then show ?case by (cases ys) (simp_all add: Let_def)
next
  case (2 f x y zs)
  then show ?case by (auto simp: Let_def)
next
  case (3 f)
  then show ?case by simp
qed

lemma arg_min_list_Cons:
  "xs \<noteq> [] \<Longrightarrow>
   arg_min_list f (x # xs) = (if f x \<le> f (arg_min_list f xs) then x else arg_min_list f xs)"
  by (cases xs) (simp_all add: Let_def)

lemma arg_min_list_map:
  "xs \<noteq> [] \<Longrightarrow> arg_min_list f (map g xs) = g (arg_min_list (\<lambda>x. f (g x)) xs)"
proof (induction xs)
  case Nil then show ?case by simp
next
  case (Cons x xs)
  then show ?case by (cases "xs = []") (simp_all add: arg_min_list_Cons)
qed

lemma arg_min_list_concat:
  "qs \<noteq> [] \<Longrightarrow> (\<And>q. q \<in> set qs \<Longrightarrow> B q \<noteq> []) \<Longrightarrow>
   arg_min_list f (concat (map B qs)) = arg_min_list f (map (\<lambda>q. arg_min_list f (B q)) qs)"
proof (induction qs)
  case Nil then show ?case by simp
next
  case (Cons q qs)
  show ?case
  proof (cases "qs = []")
    case True then show ?thesis by simp
  next
    case False
    with Cons.prems have ne: "concat (map B qs) \<noteq> []" "B q \<noteq> []"
      by (cases qs; auto)+
    from False Cons have "arg_min_list f (concat (map B qs))
          = arg_min_list f (map (\<lambda>q. arg_min_list f (B q)) qs)" by simp
    with False ne show ?thesis
      by (simp add: arg_min_list_append arg_min_list_Cons)
  qed
qed

lemma arg_min_list_strict_step:
  "arg_min_list f (b # x # xs) = arg_min_list f ((if f x < f b then x else b) # xs)"
  by (cases "xs = []") (auto simp: arg_min_list_Cons Let_def)


lemma ordered_byD:
  "ordered_by lt key func ps \<Longrightarrow> p \<in> set ps \<Longrightarrow> q \<in> set ps \<Longrightarrow>
   lt (func p) (func q) = (key (func p) < key (func q))"
  by (auto simp: ordered_by_def list_all_iff)

lemma ordered_by_subset:
  "ordered_by lt key func ps \<Longrightarrow> set qs \<subseteq> set ps \<Longrightarrow> ordered_by lt key func qs"
  by (auto simp: ordered_by_def list_all_iff)

lemma foldl_scan_step:
  assumes "ordered_by lt key func (map (\<lambda>q. other @ [q]) (b # ps))"
  shows "foldl (scan_step lt func other) ((b, func (other @ [b])), ev) ps
   = ((arg_min_list (\<lambda>q. key (func (other @ [q]))) (b # ps),
       func (other @ [arg_min_list (\<lambda>q. key (func (other @ [q]))) (b # ps)])),
      ev @ map (\<lambda>q. other @ [q]) ps)"
  using assms
proof (induction ps arbitrary: b ev)
  case Nil then show ?case by simp
next
  case (Cons x ps)
  let ?f = "\<lambda>q. func (other @ [q])"
  let ?h = "\<lambda>q. key (func (other @ [q]))"
  let ?b = "if ?h x < ?h b then x else b"
  have cmp: "lt (?f x) (?f b) = (?h x < ?h b)"
    by (rule ordered_byD [OF Cons.prems]) simp_all
  have sub: "ordered_by lt key func (map (\<lambda>q. other @ [q]) (?b # ps))"
    by (rule ordered_by_subset [OF Cons.prems]) auto
  have "scan_step lt func other ((b, ?f b), ev) x = ((?b, ?f ?b), ev @ [other @ [x]])"
    by (simp add: scan_step_def Let_def cmp)
  then have "foldl (scan_step lt func other) ((b, ?f b), ev) (x # ps)
             = foldl (scan_step lt func other) ((?b, ?f ?b), ev @ [other @ [x]]) ps"
    by simp
  also have "\<dots> = ((arg_min_list ?h (?b # ps), ?f (arg_min_list ?h (?b # ps))),
                    (ev @ [other @ [x]]) @ map (\<lambda>q. other @ [q]) ps)"
    by (rule Cons.IH [OF sub])
  also have "arg_min_list ?h (?b # ps) = arg_min_list ?h (b # x # ps)"
    by (rule arg_min_list_strict_step [symmetric])
  finally show ?case by simp
qed

lemma foldl_keep_best_Some:
  assumes "ordered_by lt key func (b # map c qs)"
  shows "foldl (keep_best_step lt) (Inr (Some (b, func b), ev))
           (map (\<lambda>q. Inr ((c q, func (c q)), B q)) qs)
   = Inr (Some (arg_min_list (\<lambda>p. key (func p)) (b # map c qs),
                func (arg_min_list (\<lambda>p. key (func p)) (b # map c qs))),
          ev @ concat (map B qs))"
  using assms
proof (induction qs arbitrary: b ev)
  case Nil then show ?case by simp
next
  case (Cons q qs)
  let ?h = "\<lambda>p. key (func p)"
  let ?b = "if ?h (c q) < ?h b then c q else b"
  have cmp: "lt (func (c q)) (func b) = (?h (c q) < ?h b)"
    by (rule ordered_byD [OF Cons.prems]) simp_all
  have sub: "ordered_by lt key func (?b # map c qs)"
    by (rule ordered_by_subset [OF Cons.prems]) auto
  have "keep_best_step lt (Inr (Some (b, func b), ev)) (Inr ((c q, func (c q)), B q))
        = Inr (Some (?b, func ?b), ev @ B q)"
    by (simp add: keep_best_step_def cmp)
  then have "foldl (keep_best_step lt) (Inr (Some (b, func b), ev))
               (map (\<lambda>q. Inr ((c q, func (c q)), B q)) (q # qs))
             = foldl (keep_best_step lt) (Inr (Some (?b, func ?b), ev @ B q))
                 (map (\<lambda>q. Inr ((c q, func (c q)), B q)) qs)"
    by simp
  also have "\<dots> = Inr (Some (arg_min_list ?h (?b # map c qs), func (arg_min_list ?h (?b # map c qs))),
                       (ev @ B q) @ concat (map B qs))"
    by (rule Cons.IH [OF sub])
  also have "arg_min_list ?h (?b # map c qs) = arg_min_list ?h (b # c q # map c qs)"
    by (rule arg_min_list_strict_step [symmetric])
  finally show ?case by simp
qed

lemma foldl_keep_best:
  assumes "qs \<noteq> []" and "ordered_by lt key func (map c qs)"
  shows "foldl (keep_best_step lt) (Inr (None, [])) (map (\<lambda>q. Inr ((c q, func (c q)), B q)) qs)
   = Inr (Some (arg_min_list (\<lambda>p. key (func p)) (map c qs),
                func (arg_min_list (\<lambda>p. key (func p)) (map c qs))), concat (map B qs))"
proof -
  from assms(1) obtain q qs' where qs: "qs = q # qs'" by (cases qs) auto
  have "keep_best_step lt (Inr (None, [])) (Inr ((c q, func (c q)), B q))
        = Inr (Some (c q, func (c q)), B q)"
    by (simp add: keep_best_step_def)
  moreover from assms(2) have "ordered_by lt key func (c q # map c qs')"
    unfolding qs by simp
  ultimately show ?thesis
    unfolding qs
    using foldl_keep_best_Some [where func = func and b = "c q" and ev = "B q" and c = c
        and B = B and qs = qs' and lt = lt and key = key]
    by simp
qed

lemma concat_map_singleton: "concat (map (\<lambda>x. [g x]) ys) = map g ys"
  by (induction ys) auto

lemma singleton_hd: "length x = 1 \<Longrightarrow> x = [hd x]"
  by (cases x) auto

lemma product_lists_singleton_Cons:
  "length x = 1 \<Longrightarrow> product_lists (x # xss) = map (Cons (hd x)) (product_lists xss)"
  by (cases x) auto

lemma product_lists_singletons_last:
  "list_all (\<lambda>ii. length ii = 1) xs \<Longrightarrow>
   product_lists (xs @ [ys]) = map (\<lambda>q. map hd xs @ [q]) ys"
proof (induction xs)
  case Nil
  then show ?case by (simp add: concat_map_singleton)
next
  case (Cons x xs)
  then obtain a where "x = [a]" by (cases x) auto
  with Cons show ?case by (simp add: o_def)
qed

lemma product_lists_split:
  "list_all (\<lambda>ii. length ii = 1) xs \<Longrightarrow>
   product_lists (xs @ [ys] @ zs) = concat (map (\<lambda>q. product_lists (xs @ [[q]] @ zs)) ys)"
proof (induction xs)
  case Nil
  then show ?case by simp
next
  case (Cons x xs)
  then obtain a where "x = [a]" by (cases x) auto
  with Cons show ?case by (simp add: map_concat o_def)
qed

lemma product_lists_nonempty: "[] \<notin> set xss \<Longrightarrow> product_lists xss \<noteq> []"
proof (induction xss)
  case Nil then show ?case by simp
next
  case (Cons a xss)
  then obtain x xs where a: "a = x # xs" by (cases a) auto
  from Cons obtain y ys where "product_lists xss = y # ys"
    by (cases "product_lists xss") auto
  with a show ?case by simp
qed

lemma singletons_by_index:
  "list_all (\<lambda>ii. length ii = 1) (take k g) \<Longrightarrow> k \<le> length g \<Longrightarrow>
   map (\<lambda>ii. [hd (g ! ii)]) [0..<k] = take k g"
  by (rule nth_equalityI) (auto simp: list_all_length singleton_hd [symmetric])


lemma takeWhile_prefix_all: "list_all P (take (length (takeWhile P xs)) xs)"
  by (induction xs) auto

lemma optimize_grid_last_axis:
  assumes all1: "list_all (\<lambda>ii. length ii = 1) (butlast grid)"
    and ne: "grid \<noteq> []" and nonempty: "[] \<notin> set grid"
    and ord: "ordered_by lt key func (product_lists grid)"
  shows "optimize_grid lt func grid = Inr (exhaustive_search key func grid)"
proof -
  let ?other = "map hd (butlast grid)"
  let ?h = "\<lambda>q. key (func (?other @ [q]))"
  from ne nonempty have "last grid \<noteq> []" by (metis last_in_set)
  then obtain p ps where l: "last grid = p # ps" by (cases "last grid") auto
  from ne have "product_lists grid = product_lists (butlast grid @ [last grid])" by simp
  also have "\<dots> = map (\<lambda>q. ?other @ [q]) (p # ps)"
    unfolding l by (rule product_lists_singletons_last [OF all1])
  finally have pl: "product_lists grid = map (\<lambda>q. ?other @ [q]) (p # ps)" .
  have am: "arg_min_list (\<lambda>p. key (func p)) (map (\<lambda>q. ?other @ [q]) (p # ps))
            = ?other @ [arg_min_list ?h (p # ps)]"
    by (rule arg_min_list_map) simp
  from ord have ord': "ordered_by lt key func (map (\<lambda>q. ?other @ [q]) (p # ps))"
    unfolding pl .
  have "optimize_grid lt func grid
        = Inr ((?other @ [arg_min_list ?h (p # ps)], func (?other @ [arg_min_list ?h (p # ps)])),
               map (\<lambda>q. ?other @ [q]) (p # ps))"
    using all1 ne l
    by (subst optimize_grid.simps) (simp add: Let_def foldl_scan_step [OF ord'])
  also have "\<dots> = Inr (exhaustive_search key func grid)"
    unfolding exhaustive_search_def pl Let_def am ..
  finally show ?thesis .
qed

lemma optimize_grid_exhaustive:
  assumes "grid \<noteq> []" and "[] \<notin> set grid"
    and "ordered_by lt key func (product_lists grid)"
  shows "optimize_grid lt func grid = Inr (exhaustive_search key func grid)"
  using assms
proof (induction lt func grid rule: optimize_grid.induct)
  case (1 lt func grid)
  let ?h = "\<lambda>p. key (func p)"
  show ?case
  proof (cases "list_all (\<lambda>ii. length ii = 1) (butlast grid)")
    case True
    from optimize_grid_last_axis [OF True "1.prems"] show ?thesis .
  next
    case False
    let ?k = "first_multivalued grid"
    let ?left = "map (\<lambda>ii. [hd (grid ! ii)]) [0..<?k]"
    let ?right = "drop (?k + 1) grid"
    let ?G = "\<lambda>param. ?left @ [[param]] @ ?right"
    let ?B = "\<lambda>param. product_lists (?G param)"
    let ?c = "\<lambda>param. arg_min_list ?h (?B param)"
    from first_multivalued_props(1) [OF False] have k: "?k < length grid" by simp
    then have kb: "?k < length (butlast grid) \<or> ?k = length (butlast grid)" by auto
    have "list_all (\<lambda>ii. length ii = 1) (take ?k (butlast grid))"
      unfolding first_multivalued_def by (rule takeWhile_prefix_all)
    moreover have "take ?k (butlast grid) = take ?k grid"
      using k by (simp add: take_butlast)
    ultimately have singles: "list_all (\<lambda>ii. length ii = 1) (take ?k grid)" by simp
    then have left: "?left = take ?k grid"
      using k by (intro singletons_by_index) simp_all
    have split: "grid = take ?k grid @ [grid ! ?k] @ ?right"
      using id_take_nth_drop [OF k] by simp
    have "product_lists grid = product_lists (take ?k grid @ [grid ! ?k] @ ?right)"
      using split by simp
    also have "\<dots> = concat (map (\<lambda>q. product_lists (take ?k grid @ [[q]] @ ?right)) (grid ! ?k))"
      by (rule product_lists_split [OF singles])
    finally have pl: "product_lists grid = concat (map ?B (grid ! ?k))"
      unfolding left .
    from k "1.prems"(2) have axis: "grid ! ?k \<noteq> []" by (metis nth_mem)
    have G_ok: "?G q \<noteq> [] \<and> [] \<notin> set (?G q)" for q
    proof -
      have "set ?right \<subseteq> set grid" by (rule set_drop_subset)
      with "1.prems"(2) show ?thesis by auto
    qed
    have B_sub: "set (?B q) \<subseteq> set (product_lists grid)" if "q \<in> set (grid ! ?k)" for q
      unfolding pl using that by auto
    have B_ord: "ordered_by lt key func (?B q)" if "q \<in> set (grid ! ?k)" for q
      by (rule ordered_by_subset [OF "1.prems"(3) B_sub [OF that]])
    have rec: "optimize_grid lt func (?G q) = Inr ((?c q, func (?c q)), ?B q)"
      if "q \<in> set (grid ! ?k)" for q
      using "1.IH" [OF False refl refl refl that] G_ok [of q] B_ord [OF that]
      by (simp add: exhaustive_search_def Let_def)
    then have meq: "map (\<lambda>param. optimize_grid lt func (?G param)) (grid ! ?k)
               = map (\<lambda>q. Inr ((?c q, func (?c q)), ?B q)) (grid ! ?k)"
      by simp
    have c_in: "?c q \<in> set (product_lists grid)" if "q \<in> set (grid ! ?k)" for q
    proof -
      from G_ok [of q] have "?B q \<noteq> []" by (intro product_lists_nonempty) simp
      then have "?c q \<in> set (?B q)" by (rule arg_min_list_in)
      with B_sub [OF that] show ?thesis by auto
    qed
    have c_ord: "ordered_by lt key func (map ?c (grid ! ?k))"
      by (rule ordered_by_subset [OF "1.prems"(3)]) (use c_in in auto)
    have "foldl (keep_best_step lt) (Inr (None, []))
                 (map (\<lambda>param. optimize_grid lt func (?G param)) (grid ! ?k))
               = Inr (Some (arg_min_list ?h (map ?c (grid ! ?k)),
                            func (arg_min_list ?h (map ?c (grid ! ?k)))),
                      concat (map ?B (grid ! ?k)))"
      unfolding meq by (rule foldl_keep_best [OF axis c_ord])
    then have "optimize_grid lt func grid
               = Inr ((arg_min_list ?h (map ?c (grid ! ?k)),
                       func (arg_min_list ?h (map ?c (grid ! ?k)))),
                      concat (map ?B (grid ! ?k)))"
      using False by (subst optimize_grid.simps) (simp add: Let_def)
    moreover have "arg_min_list ?h (concat (map ?B (grid ! ?k)))
                   = arg_min_list ?h (map ?c (grid ! ?k))"
      using axis G_ok by (intro arg_min_list_concat product_lists_nonempty) simp_all
    ultimately show ?thesis
      by (simp add: exhaustive_search_def Let_def pl)
  qed
qed

lemma ordered_by_linorder: "ordered_by (<) (\<lambda>v. v) func ps"
  by (simp add: ordered_by_def list_all_iff)

lemma ordered_by_float:
  "list_all (\<lambda>p. func p \<noteq> NaN) ps \<Longrightarrow> ordered_by float_less number_of func ps"
proof -
  have "float_less a b = (number_of a < number_of b)" if "a \<noteq> NaN" "b \<noteq> NaN" for a b
    using that by (cases a; cases b) simp_all
  then show "list_all (\<lambda>p. func p \<noteq> NaN) ps \<Longrightarrow> ordered_by float_less number_of func ps"
    by (auto simp: ordered_by_def list_all_iff)
qed

text \<open>
  C4, as stated, fails: on two axes of three values each, \<open>optimize_grid\<close> calls the
  loss at all nine points of the Cartesian product and returns the optimum \<open>[2, 2]\<close>,
  which a sweep of one axis with the other held at its first value does not reach.
\<close>

theorem C4_full_product_counterexample:
  "optimize_grid (<) diagonal_loss [[0, 1, 2], [0, 1, 2]]
   = Inr (([2, 2], 0),
          [[0, 0], [0, 1], [0, 2], [1, 0], [1, 1], [1, 2], [2, 0], [2, 1], [2, 2]])"
  by (simp add: optimize_grid_exhaustive [where key = "\<lambda>v. v"] ordered_by_linorder
      exhaustive_search_def Let_def)

text \<open>
  C4, amended: on every non-empty grid with non-empty axes, and with losses that the
  comparison orders linearly at the points of the grid (floating-point losses none of
  which is NaN), \<open>optimize_grid\<close> returns what exhaustive search returns. It calls the
  loss at every point of the Cartesian product, once each and in lexicographic order,
  and returns the first point whose loss is the smallest of all, with that loss.
\<close>

theorem C4_optimize_grid_exhaustive:
  assumes "grid \<noteq> []" and "[] \<notin> set grid"
    and "ordered_by lt key func (product_lists grid)"
  shows "optimize_grid lt func grid = Inr (exhaustive_search key func grid)
    \<and> snd (exhaustive_search key func grid) = product_lists grid
    \<and> fst (fst (exhaustive_search key func grid)) \<in> set (product_lists grid)
    \<and> snd (fst (exhaustive_search key func grid)) = func (fst (fst (exhaustive_search key func grid)))
    \<and> (\<forall>p \<in> set (product_lists grid).
          \<not> lt (func p) (snd (fst (exhaustive_search key func grid)))
          \<and> key (snd (fst (exhaustive_search key func grid))) \<le> key (func p))"
proof -
  let ?h = "\<lambda>p. key (func p)"
  let ?best = "arg_min_list ?h (product_lists grid)"
  from assms(2) have ne: "product_lists grid \<noteq> []" by (rule product_lists_nonempty)
  then have best_in: "?best \<in> set (product_lists grid)" by (rule arg_min_list_in)
  have "\<not> lt (func p) (func ?best) \<and> ?h ?best \<le> ?h p"
    if "p \<in> set (product_lists grid)" for p
  proof -
    have "?h ?best = Min (?h ` set (product_lists grid))" by (rule f_arg_min_list_f [OF ne])
    with that have "?h ?best \<le> ?h p" by simp
    moreover have "lt (func p) (func ?best) = (?h p < ?h ?best)"
      by (rule ordered_byD [OF assms(3) that best_in])
    ultimately show ?thesis by simp
  qed
  with ne optimize_grid_exhaustive [OF assms] best_in show ?thesis
    by (simp add: exhaustive_search_def Let_def)
qed

theorem C4_optimize_grid_exhaustive_witness:
  "[[0, 1, 2], [0, 1, 2]] \<noteq> ([] :: int list list)
   \<and> [] \<notin> set [[0, 1, 2], [0, 1, 2 :: int]]
   \<and> ordered_by float_less number_of float_quadratic_loss (product_lists [[0, 1, 2], [0, 1, 2]])
   \<and> optimize_grid float_less float_quadratic_loss [[0, 1, 2], [0, 1, 2]]
     = Inr (([1, 2], Num 0),
            [[0, 0], [0, 1], [0, 2], [1, 0], [1, 1], [1, 2], [2, 0], [2, 1], [2, 2]])
   \<and> length (product_lists [[0, 1, 2], [0, 1, 2 :: int]]) = 9"
proof -
  have o: "ordered_by float_less number_of float_quadratic_loss (product_lists [[0, 1, 2], [0, 1, 2]])"
    by (rule ordered_by_float) (simp add: float_quadratic_loss_def)
  have e: "exhaustive_search number_of float_quadratic_loss [[0, 1, 2], [0, 1, 2]]
           = (([1, 2], Num 0),
              [[0, 0], [0, 1], [0, 2], [1, 0], [1, 1], [1, 2], [2, 0], [2, 1], [2, 2]])"
    by (simp add: exhaustive_search_def Let_def float_quadratic_loss_def)
  from C4_optimize_grid_exhaustive [of "[[0, 1, 2], [0, 1, 2]]" float_less number_of
      float_quadratic_loss, OF _ _ o] o
  show ?thesis by (simp add: e)
qed

text \<open>
  With a NaN among the losses the comparison is false both ways and the search is not
  the exhaustive one: NaN at the first point of the grid is never replaced, and is
  returned although every other point has a finite loss.
\<close>

lemma optimize_grid_nan_first:
  "optimize_grid float_less nan_at_origin [[0, 1, 2], [0, 1, 2]]
   = Inr (([0, 0], NaN),
          [[0, 0], [0, 1], [0, 2], [1, 0], [1, 1], [1, 2], [2, 0], [2, 1], [2, 2]])"
  by (simp add: optimize_grid.simps first_multivalued_def scan_step_def keep_best_step_def
      nan_at_origin_def float_quadratic_loss_def Let_def)

subsection \<open>C9: the value of a hyperparameter is converted to its \<open>dtype\<close>\<close>







subsection \<open>C3: resolving the program of a method\<close>










subsection \<open>C10: an element outside the species of an ANI model\<close>

text \<open>
  C10, as stated, fails: \<open>predict\<close> of the method ANI-1x on hydrogen fluoride, whose
  fluorine is outside the elements of the model, raises nothing; it returns with the
  molecule as it was and one line printed.
\<close>

theorem C10_unseen_element_counterexample:
  "ani_methods_predict no_standard_deviation (ani1x ani1x_tree) None (Some hydrogen_fluoride)
     \<lparr>calculate_energy = True, calculate_energy_gradients = False, calculate_hessian = False\<rparr> []
   = Inr ([hydrogen_fluoride],
          ['' * Warning * Molecule contains elements other than CHNO, no calculations performed''])"
  by (simp add: ani_methods_predict_def model_predict_def ebind_def predict_for_molecule_def
      ani1x_def hydrogen_fluoride_def warning_unsupported_def casefold_def lower_char_def)


text \<open>
  C10, amended: on a molecule with an atom whose atomic number is outside the elements
  the ANI method knows, \<open>predict_for_molecule\<close>, and with it \<open>predict\<close>, raises
  nothing: it prints one warning and returns, and the molecule is left as it was, with
  no prediction. Likewise \<open>ani.data_setup\<close>, given a species order and a database
  with an element outside it, prints one line and returns without raising and without
  building any data set.
\<close>

theorem C10_unsupported_element_skipped:
  "(\<not> list_all (\<lambda>atom. atomic_number atom \<in> set (atomic_number_available self)) (atoms molecule)
    \<longrightarrow> predict_for_molecule sd self flags (molecule, printed)
          = Inr (molecule, printed @ [warning_unsupported (ani_method self)])
        \<and> ani_methods_predict sd self None (Some molecule) flags printed
          = Inr ([molecule], printed @ [warning_unsupported (ani_method self)]))
   \<and> (species_order \<noteq> []
      \<and> \<not> list_all (\<lambda>element. element \<in> set species_order) (sort (remdups element_symbols))
    \<longrightarrow> data_setup rest species_order element_symbols (s, printed)
          = Inr (species_order, s,
                 printed @ [''element(s) outside supported species detected, please check the database'']))"
  by (simp add: predict_for_molecule_def ani_methods_predict_def model_predict_def ebind_def
      data_setup_def Let_def)

theorem C10_unsupported_element_skipped_witness:
  "\<not> list_all (\<lambda>atom. atomic_number atom \<in> set (atomic_number_available (ani1x ani1x_tree)))
       (atoms hydrogen_fluoride)
   \<and> predict_for_molecule no_standard_deviation (ani1x ani1x_tree)
       \<lparr>calculate_energy = True, calculate_energy_gradients = True, calculate_hessian = False\<rparr>
       (hydrogen_fluoride, [])
     = Inr (hydrogen_fluoride, [warning_unsupported ''ANI-1x''])
   \<and> [''C'', ''H''] \<noteq> []
   \<and> \<not> list_all (\<lambda>element. element \<in> set [''C'', ''H'']) (sort (remdups [''H'', ''F'', ''H'']))
   \<and> data_setup (\<lambda>species s. Inr (Suc s)) [''C'', ''H''] [''H'', ''F'', ''H''] (0 :: nat, [])
     = Inr ([''C'', ''H''], 0,
            [''element(s) outside supported species detected, please check the database''])"
proof -
  have a: "\<not> list_all (\<lambda>atom. atomic_number atom \<in> set (atomic_number_available (ani1x ani1x_tree)))
       (atoms hydrogen_fluoride)"
    by (simp add: ani1x_def hydrogen_fluoride_def)
  have b: "\<not> list_all (\<lambda>element. element \<in> set [''C'', ''H'']) (sort (remdups [''H'', ''F'', ''H'']))"
    by (simp add: list_all_iff)
  have m: "ani_method (ani1x ani1x_tree) = ''ANI-1x''" by (simp add: ani1x_def)
  from C10_unsupported_element_skipped [where self = "ani1x ani1x_tree"
      and molecule = hydrogen_fluoride and sd = no_standard_deviation and printed = "[]"
      and flags = "\<lparr>calculate_energy = True, calculate_energy_gradients = True, calculate_hessian = False\<rparr>"
      and species_order = "[''C'', ''H'']" and element_symbols = "[''H'', ''F'', ''H'']"
      and rest = "\<lambda>species s. Inr (Suc s)" and s = "0 :: nat"] a b m
  show ?thesis by simp
qed

subsection \<open>C2: \<open>sum\<close> and \<open>average\<close> in the model tree\<close>



lemma emap_singleton: "emap f [x] = ebind (f x) (\<lambda>y. Inr [y])"
  by (simp add: ebind_def split: sum.splits)





























lemmas run_defs = children_done_def three_leaves_def leaf_def fixed_model_def hydrogen_def
    energy_and_gradients_def
    ensure_container_def ebind_def new_properties_tree_node_def Let_def List.map_filter_def
    leaf_model_predict_def requested_properties_def requested_atomic_properties_def
    get_properties_from_molecule_def node_container_def deref_def set_container_value_def
    set_obj_def atom_property_def set_atom_property_def after_children_def







text \<open>
  The whole of \<open>predict\<close> on the molecule without any annotation: the root makes its
  container, the three leaves predict, the root combines and copies. The result is the
  state above: energy \<open>1 + 2 + 6 = 9\<close> for the sum, and \<open>3\<close> for the average.
\<close>

lemma fresh_run_sum:
  "node_predict None sum_tree energy_and_gradients [hydrogen] = Inr [summed]"
  apply (simp add: sum_tree_def summed_def combined_state_def)
  apply (simp add: run_defs combine_at_def properties_tree_node_sum_def combine_def child_value_def
      np_sum_def update_molecular_properties_def container_value_def row_of_def upt_conv_Cons
      reported_def elementwise_sum_def annotate_atoms_def upd_all_def fun_eq_iff)
  done

lemma fresh_run_average:
  "node_predict None average_tree energy_and_gradients [hydrogen] = Inr [averaged]"
  apply (simp add: average_tree_def averaged_def combined_state_def)
  apply (simp add: run_defs combine_at_def properties_tree_node_average_def combine_def child_value_def
      np_sum_def np_mean_def update_molecular_properties_def container_value_def row_of_def upt_conv_Cons
      reported_def elementwise_sum_def elementwise_mean_def annotate_atoms_def upd_all_def fun_eq_iff)
  done

subsection \<open>C8: the symmetry of the kernel matrix\<close>

lemma length_tabulate [simp]: "length (tabulate n f) = n"
  by (simp add: tabulate_def)

lemma nth_tabulate [simp]: "r < n \<Longrightarrow> c < n \<Longrightarrow> tabulate n f ! r ! c = f r c"
  by (simp add: tabulate_def)

lemma length_updates [simp]:
  "length (add_entry r c v K) = length K"
  "length (add_row_segment r c0 m g K) = length K"
  "length (set_row_segment r c0 m g K) = length K"
  "length (add_block r0 c0 m H K) = length K"
  "length (mirror_cross_blocks n K) = length K"
  "length (minus_ridge lam K) = length K"
  "length (matrix_T K) = length K"
  by (simp_all add: add_entry_def add_row_segment_def set_row_segment_def add_block_def
      mirror_cross_blocks_def minus_ridge_def matrix_T_def)

lemma nth_updates:
  assumes "i < length K" "j < length K"
  shows "add_entry r c v K ! i ! j = (if i = r \<and> j = c then K ! i ! j + v else K ! i ! j)"
    and "add_row_segment r c0 m g K ! i ! j
         = (if i = r \<and> c0 \<le> j \<and> j < c0 + m then K ! i ! j + g (j - c0) else K ! i ! j)"
    and "set_row_segment r c0 m g K ! i ! j
         = (if i = r \<and> c0 \<le> j \<and> j < c0 + m then g (j - c0) else K ! i ! j)"
    and "add_block r0 c0 m H K ! i ! j
         = (if r0 \<le> i \<and> i < r0 + m \<and> c0 \<le> j \<and> j < c0 + m
            then K ! i ! j + H (i - r0) (j - c0) else K ! i ! j)"
    and "mirror_cross_blocks n K ! i ! j = (if n \<le> i \<and> j < n then K ! j ! i else K ! i ! j)"
    and "minus_ridge lam K ! i ! j = K ! i ! j - (if i = j then lam else 0)"
    and "matrix_T K ! i ! j = K ! j ! i"
  using assms
  by (simp_all add: add_entry_def add_row_segment_def set_row_segment_def add_block_def
      mirror_cross_blocks_def minus_ridge_def matrix_T_def)

lemma gaussian_same_distance:
  assumes "gi \<in> set two_orientations" "gj \<in> set two_orientations"
  shows "gaussian_kernel_function 1 [1] gi gj =
     Inr \<lparr>kernel_value = 1, kernel_gradients = (\<lambda>a. 0), kernel_gradients_j = (\<lambda>b. 0),
          kernel_Hessian = (\<lambda>a b. descriptor_derivative gi [1] 0 a * descriptor_derivative gj [1] 0 b)\<rparr>"
  using assms
  by (auto simp: two_orientations_def gaussian_kernel_function_def descriptor_error_def
      atom_pairs_def RE_descriptor_tensor_def distance_tensor_def Let_def)


lemma two_orientations_shape:
  "\<not> (\<exists>coord \<in> set two_orientations. length coord \<noteq> length (hd two_orientations))"
  "two_orientations \<noteq> []"
  "length two_orientations = 2"
  "length (two_orientations ! 0) = 2"
  "two_orientations ! 0 \<in> set two_orientations"
  "two_orientations ! 1 \<in> set two_orientations"
  "two_orientations ! Suc 0 \<in> set two_orientations"
  by (simp_all add: two_orientations_def)

lemma two_orientations_derivatives:
  "map (descriptor_derivative (two_orientations ! 0) [1] 0) [0, 1, 2, 3, 4, 5] = [1, 0, 0, - 1, 0, 0]"
  "map (descriptor_derivative (two_orientations ! 1) [1] 0) [0, 1, 2, 3, 4, 5] = [0, 1, 0, 0, - 1, 0]"
  by (simp_all add: two_orientations_def descriptor_derivative_def atom_pairs_def
      distance_tensor_def Let_def)

lemma tabulate_cong:
  "(\<And>i j. i < n \<Longrightarrow> j < n \<Longrightarrow> f i j = g i j) \<Longrightarrow> tabulate n f = tabulate n g"
  by (simp add: tabulate_def)

lemma efold_invariant:
  assumes "efold f xs s = Inr s'" and "P s"
    and "\<And>x s s'. x \<in> set xs \<Longrightarrow> P s \<Longrightarrow> f x s = Inr s' \<Longrightarrow> P s'"
  shows "P s'"
  using assms
proof (induction xs arbitrary: s)
  case Nil then show ?case by simp
next
  case (Cons x xs)
  from Cons.prems(1) obtain t where t: "f x s = Inr t" and r: "efold f xs t = Inr s'"
    by (auto simp: ebind_def split: sum.splits)
  have "P t" by (rule Cons.prems(3) [OF _ Cons.prems(2) t]) simp
  show ?case
  proof (rule Cons.IH [OF r \<open>P t\<close>])
    fix y u u'
    assume "y \<in> set xs" "P u" "f y u = Inr u'"
    then show "P u'" using Cons.prems(3) [of y u u'] by simp
  qed
qed

lemma add_entry_nth:
  "i < length K \<Longrightarrow> j < length K \<Longrightarrow>
   add_entry r c v K ! i ! j = K ! i ! j + (if i = r \<and> j = c then v else 0)"
  by (simp add: add_entry_def)

lemma add_entry_pair_nth:
  assumes "i < length K" "j < length K"
  shows "add_entry b a v (add_entry a b v K) ! i ! j
         = K ! i ! j + (if i = a \<and> j = b then v else 0) + (if i = b \<and> j = a then v else 0)"
proof -
  from assms have "i < length (add_entry a b v K)" "j < length (add_entry a b v K)" by simp_all
  then have "add_entry b a v (add_entry a b v K) ! i ! j
             = add_entry a b v K ! i ! j + (if i = b \<and> j = a then v else 0)"
    by (rule add_entry_nth)
  also have "add_entry a b v K ! i ! j = K ! i ! j + (if i = a \<and> j = b then v else 0)"
    using assms by (rule add_entry_nth)
  finally show ?thesis .
qed



lemma symmetric_entriesD:
  "symmetric_entries n K \<Longrightarrow> i < n \<Longrightarrow> j < n \<Longrightarrow> K ! i ! j = K ! j ! i"
  by (simp add: symmetric_entries_def)

lemma symmetric_entries_length: "symmetric_entries n K \<Longrightarrow> length K = n"
  by (simp add: symmetric_entries_def)

lemma symmetric_entries_add_diagonal:
  assumes "symmetric_entries n K"
  shows "symmetric_entries n (add_entry a a v K)"
  unfolding symmetric_entries_def
proof (intro conjI allI impI)
  from assms show "length (add_entry a a v K) = n" by (simp add: symmetric_entries_def)
next
  fix i j assume ij: "i < n" "j < n"
  note l = symmetric_entries_length [OF assms]
  from ij l have a: "add_entry a a v K ! i ! j = K ! i ! j + (if i = a \<and> j = a then v else 0)"
    by (intro add_entry_nth) simp_all
  from ij l have b: "add_entry a a v K ! j ! i = K ! j ! i + (if j = a \<and> i = a then v else 0)"
    by (intro add_entry_nth) simp_all
  have c: "(i = a \<and> j = a) = (j = a \<and> i = a)" by blast
  show "add_entry a a v K ! i ! j = add_entry a a v K ! j ! i"
    unfolding a b c symmetric_entriesD [OF assms ij] ..
qed

lemma symmetric_entries_add_pair:
  assumes "symmetric_entries n K"
  shows "symmetric_entries n (add_entry b a v (add_entry a b v K))"
  unfolding symmetric_entries_def
proof (intro conjI allI impI)
  from assms show "length (add_entry b a v (add_entry a b v K)) = n"
    by (simp add: symmetric_entries_def)
next
  fix i j assume ij: "i < n" "j < n"
  note l = symmetric_entries_length [OF assms]
  from ij l have a: "add_entry b a v (add_entry a b v K) ! i ! j
         = K ! i ! j + (if i = a \<and> j = b then v else 0) + (if i = b \<and> j = a then v else 0)"
    by (intro add_entry_pair_nth) simp_all
  from ij l have b: "add_entry b a v (add_entry a b v K) ! j ! i
         = K ! j ! i + (if j = a \<and> i = b then v else 0) + (if j = b \<and> i = a then v else 0)"
    by (intro add_entry_pair_nth) simp_all
  have c: "(j = a \<and> i = b) = (i = b \<and> j = a)" "(j = b \<and> i = a) = (i = a \<and> j = b)"
    by blast+
  show "add_entry b a v (add_entry a b v K) ! i ! j
        = add_entry b a v (add_entry a b v K) ! j ! i"
    unfolding a b c symmetric_entriesD [OF assms ij] by (simp only: ac_simps)
qed


lemma pair_step_symmetric:
  assumes "symmetric_entries n K1"
    and "pair_step kernel_function False xyz n' m ii jj K1 = Inr K2"
  shows "symmetric_entries n K2"
proof -
  from assms(2) obtain vd :: kernel_output where
    "K2 = add_entry jj ii (kernel_value vd) (add_entry ii jj (kernel_value vd) K1)"
    by (cases "kernel_function (xyz ! ii) (xyz ! jj)") (auto simp: pair_step_def ebind_def Let_def)
  then show ?thesis by (simp only: symmetric_entries_add_pair [OF assms(1)])
qed

lemma row_step_symmetric:
  assumes "symmetric_entries n K1"
    and "row_step kernel_function False xyz n' m ii K1 = Inr K2"
  shows "symmetric_entries n K2"
proof -
  from assms(2) obtain vd :: kernel_output where
    e: "efold (pair_step kernel_function False xyz n' m ii) [ii + 1..<n']
          (add_entry ii ii (kernel_value vd) K1) = Inr K2"
    by (cases "kernel_function (xyz ! ii) (xyz ! ii)") (auto simp: row_step_def ebind_def Let_def)
  show ?thesis
    by (rule efold_invariant [where P = "symmetric_entries n", OF e])
       (rule symmetric_entries_add_diagonal [OF assms(1)], erule pair_step_symmetric)
qed

lemma run_without_derivatives:
  assumes "krr_kernel_matrix kernel_function lam False xyz = Inr K"
  shows "efold (row_step kernel_function False xyz (length xyz) (3 * length (xyz ! 0))) [0..<length xyz]
           (tabulate (length xyz) (\<lambda>i j. if i = j then lam else 0)) = Inr K"
proof -
  from assms have a: "\<not> (\<exists>coord \<in> set xyz. length coord \<noteq> length (hd xyz))"
    unfolding krr_kernel_matrix_def by (metis Inl_Inr_False)
  from assms a have b: "xyz \<noteq> []"
    unfolding krr_kernel_matrix_def by (metis Inl_Inr_False)
  from assms show ?thesis
    unfolding krr_kernel_matrix_def if_not_P [OF a] if_not_P [OF b] Let_def
    by (simp add: ebind_def split: sum.splits)
qed


lemma initial_symmetric: "symmetric_entries n (tabulate n (\<lambda>i j. if i = j then lam else 0))"
  unfolding symmetric_entries_def
proof (intro conjI allI impI)
  show "length (tabulate n (\<lambda>i j. if i = j then lam else (0::real))) = n" by simp
next
  fix i j assume ij: "i < n" "j < n"
  have c: "(j = i) = (i = j)" by blast
  show "tabulate n (\<lambda>i j. if i = j then lam else 0) ! i ! j
        = tabulate n (\<lambda>i j. if i = j then lam else 0) ! j ! i"
    unfolding nth_tabulate [OF ij] nth_tabulate [OF ij(2) ij(1)] c ..
qed

text \<open>
  Without derivative labels the matrix without the ridge term is symmetric, for every
  kernel function and every database: a value is added at \<open>(ii, jj)\<close> and at
  \<open>(jj, ii)\<close>.
\<close>

lemma kernel_matrix_symmetric_without_derivatives:
  assumes "krr_kernel_matrix kernel_function lam False xyz = Inr K"
  shows "symmetric (minus_ridge lam K)"
proof -
  let ?n = "length xyz"
  note run = run_without_derivatives [OF assms]
  have K: "symmetric_entries ?n K"
    by (rule efold_invariant [where P = "symmetric_entries ?n", OF run])
       (rule initial_symmetric, erule row_step_symmetric)
  note l = symmetric_entries_length [OF K]
  have "tabulate ?n (\<lambda>i j. tabulate ?n (\<lambda>i j. K ! i ! j - (if i = j then lam else 0)) ! j ! i)
        = tabulate ?n (\<lambda>i j. K ! i ! j - (if i = j then lam else 0))"
  proof (rule tabulate_cong)
    fix i j assume ij: "i < ?n" "j < ?n"
    have c: "(j = i) = (i = j)" by blast
    show "tabulate ?n (\<lambda>i j. K ! i ! j - (if i = j then lam else 0)) ! j ! i
                  = K ! i ! j - (if i = j then lam else 0)"
      unfolding nth_tabulate [OF ij(2) ij(1)] c symmetric_entriesD [OF K ij(2) ij(1)] ..
  qed
  then show ?thesis
    unfolding symmetric_def matrix_T_def minus_ridge_def length_tabulate l .
qed

text \<open>
  With derivative labels and two molecules, for every kernel function: the Hessian of
  the pair is found, entry by entry, in the block of the rows of the first molecule and
  the columns of the second, and unchanged in the block of the rows of the second and
  the columns of the first, where a symmetric matrix has its transpose.
\<close>

lemma two_molecules_hessian_blocks:
  assumes shape: "length x1 = length x0"
    and k00: "kernel_function x0 x0 = Inr o00"
    and k01: "kernel_function x0 x1 = Inr o01"
    and k11: "kernel_function x1 x1 = Inr o11"
    and a: "a < 3 * length x0" and b: "b < 3 * length x0"
  shows "\<exists>K. krr_kernel_matrix kernel_function lam True [x0, x1] = Inr K
           \<and> length K = 2 + 3 * length x0 * 2
           \<and> K ! (2 + a) ! (2 + 3 * length x0 + b) = kernel_Hessian o01 a b
           \<and> K ! (2 + 3 * length x0 + a) ! (2 + b) = kernel_Hessian o01 a b"
  using assms
  by (simp add: krr_kernel_matrix_def row_step_def pair_step_def Let_def ebind_def
      nth_updates upt_rec)

text \<open>
  C8: with derivative labels the matrix is not symmetric. For the two molecules of
  \<open>two_orientations\<close>, with \<open>sigma = 1\<close>, \<open>Req = [1]\<close> and \<open>lambda = 1/10\<close>,
  the matrix has \<open>2 + 2 * 6 = 14\<close> rows. The entry \<open>(0, 1)\<close> of the Hessian of the
  kernel at the pair of the two molecules is \<open>1\<close> and its entry \<open>(1, 0)\<close> is \<open>0\<close>;
  the block of the pair is written to the rows of the first molecule and the columns of
  the second, and the same block, not its transpose, to the rows of the second and the
  columns of the first. So the entry in row \<open>2\<close> and column \<open>9\<close> is \<open>1\<close>, and
  the entry in row \<open>9\<close> and column \<open>2\<close> is \<open>0\<close>.
\<close>

theorem C8_hessian_block_not_transposed:
  "\<exists>K. krr_kernel_matrix (gaussian_kernel_function 1 [1]) (1 / 10) True two_orientations = Inr K
       \<and> length K = 14
       \<and> minus_ridge (1 / 10) K ! 2 ! 9 = 1
       \<and> minus_ridge (1 / 10) K ! 9 ! 2 = 0
       \<and> minus_ridge (1 / 10) K ! 8 ! 3 = 1
       \<and> minus_ridge (1 / 10) K ! 3 ! 8 = 0
       \<and> \<not> symmetric (minus_ridge (1 / 10) K)"
proof -
  have "\<exists>K. krr_kernel_matrix (gaussian_kernel_function 1 [1]) (1 / 10) True two_orientations = Inr K
       \<and> length K = 14 \<and> K ! 2 ! 9 = 1 \<and> K ! 9 ! 2 = 0 \<and> K ! 8 ! 3 = 1 \<and> K ! 3 ! 8 = 0"
    using two_orientations_derivatives
    by (simp add: krr_kernel_matrix_def row_step_def pair_step_def Let_def ebind_def
        two_orientations_shape gaussian_same_distance nth_updates upt_rec)
  then obtain K where K: "krr_kernel_matrix (gaussian_kernel_function 1 [1]) (1 / 10) True
                            two_orientations = Inr K"
    and l: "length K = 14" and e: "K ! 2 ! 9 = 1" "K ! 9 ! 2 = 0" "K ! 8 ! 3 = 1" "K ! 3 ! 8 = 0"
    by blast
  let ?M = "minus_ridge (1 / 10) K"
  from l e have m: "?M ! 2 ! 9 = 1" "?M ! 9 ! 2 = 0" "?M ! 8 ! 3 = 1" "?M ! 3 ! 8 = 0"
    by (simp_all add: nth_updates)
  have "\<not> symmetric ?M"
  proof
    assume "symmetric ?M"
    then have "matrix_T ?M ! 2 ! 9 = ?M ! 2 ! 9" by (simp add: symmetric_def)
    moreover from l have "matrix_T ?M ! 2 ! 9 = ?M ! 9 ! 2" by (simp add: nth_updates)
    ultimately show False using m by simp
  qed
  with K l m show ?thesis by blast
qed

end
